theory Spec2Isabelle
  imports Main "HOL-Library.AList"
begin

section \<open>Data model (src/types, src/src/mediasoup/room.ts, inviteManager)\<close>

text \<open>
  A JavaScript \<open>Map<string, V>\<close> is an association list in insertion order:
  \<open>get\<close> is \<^const>\<open>map_of\<close>, \<open>set\<close> is \<^const>\<open>AList.update\<close> (an existing key keeps
  its place and gets the new value, a new key is appended), \<open>delete\<close> is
  \<^const>\<open>AList.delete\<close>, \<open>values()\<close> is \<open>map snd\<close>, \<open>size\<close> is \<^const>\<open>length\<close>,
  \<open>new Map()\<close> and \<open>clear()\<close> give \<open>[]\<close>.
\<close>

type_synonym ('k, 'v) jsmap = "('k \<times> 'v) list"

datatype PeerRole = Host | Producer | Consumer | Waiting

datatype MediaKind = Audio | Video

datatype TransportKind = Send | Recv

text \<open>
  Handles of the media engine are opaque to this layer; the model keeps their identifier
  and, for a transport, one opaque value standing for its ICE and DTLS parameters.
\<close>

record Transport =
  transportId :: string
  transportParams :: string

record ProducerH =
  producerId :: string
  producerKind :: MediaKind

record ConsumerH =
  consumerId :: string
  consumerKind :: MediaKind

record Router =
  routerId :: string
  rtpCapabilitiesOf :: string

text \<open>
  Calling \<open>close()\<close> on a handle is an effect on the media engine. The model records it
  in the set of handles on which \<open>close()\<close> has been called; closing twice is the same
  set.
\<close>

datatype Handle =
    HTransport string
  | HProducer string
  | HConsumer string
  | HRouter string

record Peer =
  peer_id :: string
  userId :: string
  displayName :: string
  role :: PeerRole
  sendTransport :: "Transport option"
  recvTransport :: "Transport option"
  producers :: "(string, ProducerH) jsmap"
  consumers :: "(string, ConsumerH) jsmap"
  rtpCapabilities :: "string option"

record Room =
  room_id :: string
  router :: Router
  peers :: "(string, Peer) jsmap"
  hostSocketId :: string
  createdAt :: nat

subsection \<open>Invite tokens\<close>

text \<open>
  \<open>jwt.sign\<close> and \<open>jwt.verify\<close> belong to the jsonwebtoken library. A signed token
  carries its payload and is bound to the key it was signed with; every other string a
  client may send is \<open>NotAJwt\<close>. \<open>Date.now()\<close> is the parameter \<open>now\<close>, in
  milliseconds.
\<close>

record TokenPayload =
  tokRoomId :: string
  tokHostName :: string
  iat :: nat
  exp :: nat

datatype Token = Signed TokenPayload string | NotAJwt string

definition JWT_SECRET :: string where
  "JWT_SECRET = ''your-secret-key-change-in-prod''"

definition INVITE_TOKEN_EXPIRY :: nat where
  "INVITE_TOKEN_EXPIRY = 24 * 60 * 60 * 1000"

definition jwt_sign :: "TokenPayload \<Rightarrow> string \<Rightarrow> Token" where
  "jwt_sign payload key = Signed payload key"

text \<open>\<open>jwt.verify\<close> throws on a malformed token, a wrong signature or an expired one.\<close>

definition jwt_verify :: "nat \<Rightarrow> Token \<Rightarrow> string \<Rightarrow> TokenPayload option" where
  "jwt_verify now token key =
     (case token of
        NotAJwt s \<Rightarrow> None
      | Signed payload k \<Rightarrow>
          if k = key \<and> now div 1000 < exp payload then Some payload else None)"

text \<open>The truth value JavaScript gives a string: only the empty string is falsy.\<close>

definition truthy :: "Token \<Rightarrow> bool" where
  "truthy token = (token \<noteq> NotAJwt [])"

record RoomSession =
  sessHostSocketId :: string
  sessHostName :: string
  sessCreatedAt :: nat
  sessInviteToken :: "Token option"

text \<open>
  The state of the \<open>InviteManager\<close> singleton is its \<open>roomSessions\<close> map (the \<open>tokens\<close>
  map is never read or written).
\<close>

type_synonym InviteManager = "(string, RoomSession) jsmap"

definition generateInviteToken :: "nat \<Rightarrow> string \<Rightarrow> string \<Rightarrow> Token" where
  "generateInviteToken now roomId hostName =
     jwt_sign \<lparr> tokRoomId = roomId, tokHostName = hostName,
                iat = now div 1000,
                exp = now div 1000 + INVITE_TOKEN_EXPIRY div 1000 \<rparr> JWT_SECRET"

definition verifyInviteToken :: "nat \<Rightarrow> Token \<Rightarrow> string \<times> bool" where
  "verifyInviteToken now token =
     (case jwt_verify now token JWT_SECRET of
        Some decoded \<Rightarrow> (tokRoomId decoded, True)
      | None \<Rightarrow> ([], False))"

text \<open>
  \<open>createRoomSession\<close> first mints a token, then stores a session holding it under the
  room id, whatever was stored there before. It returns the room id and the new token.
  (The repository holds a second, older text of the class: there the session has no
  token field, \<open>createRoomSession\<close> stores the session first and mints the token after,
  and \<open>generateInviteLink\<close> always mints.)
\<close>

definition createRoomSession ::
  "nat \<Rightarrow> string \<Rightarrow> string \<Rightarrow> string \<Rightarrow> InviteManager \<Rightarrow> (string \<times> Token) \<times> InviteManager" where
  "createRoomSession now roomId hostSock hostName sessions =
     (let inviteToken = generateInviteToken now roomId hostName
      in ((roomId, inviteToken),
          AList.update roomId
            \<lparr> sessHostSocketId = hostSock, sessHostName = hostName,
              sessCreatedAt = now, sessInviteToken = Some inviteToken \<rparr> sessions))"

definition getRoomSession :: "string \<Rightarrow> InviteManager \<Rightarrow> RoomSession option" where
  "getRoomSession roomId sessions = map_of sessions roomId"

definition removeRoomSession :: "string \<Rightarrow> InviteManager \<Rightarrow> InviteManager" where
  "removeRoomSession roomId sessions = AList.delete roomId sessions"

text \<open>
  \<open>generateInviteLink\<close> takes the token stored in the session when there is one and
  mints one otherwise. The model returns the base URL, the room id and the token the link
  is made of.
\<close>

definition generateInviteLink ::
  "nat \<Rightarrow> string \<Rightarrow> string \<Rightarrow> InviteManager \<Rightarrow> string \<times> string \<times> Token" where
  "generateInviteLink now roomId baseUrl sessions =
     (let token =
        (case map_of sessions roomId of
           Some session \<Rightarrow>
             (case sessInviteToken session of
                Some t \<Rightarrow> if truthy t then t else generateInviteToken now roomId ''host''
              | None \<Rightarrow> generateInviteToken now roomId ''host'')
         | None \<Rightarrow> generateInviteToken now roomId ''host'')
      in (baseUrl, roomId, token))"

section \<open>Room (src/src/mediasoup/room.ts)\<close>

definition getRtpCapabilities :: "Room \<Rightarrow> string" where
  "getRtpCapabilities room = rtpCapabilitiesOf (router room)"

text \<open>
  \<open>addPeer\<close> builds a fresh peer and stores it with \<open>peers.set\<close>; it has no check of the
  key and no failing branch.
\<close>

definition addPeer :: "string \<Rightarrow> string \<Rightarrow> string \<Rightarrow> PeerRole \<Rightarrow> Room \<Rightarrow> Peer \<times> Room" where
  "addPeer socketId uid dname r room =
     (let peer = \<lparr> peer_id = socketId, userId = uid, displayName = dname, role = r,
                   sendTransport = None, recvTransport = None,
                   producers = [], consumers = [], rtpCapabilities = None \<rparr>
      in (peer, room\<lparr>peers := AList.update socketId peer (peers room)\<rparr>))"

definition getPeer :: "string \<Rightarrow> Room \<Rightarrow> Peer option" where
  "getPeer socketId room = map_of (peers room) socketId"

definition getPeerByUserId :: "string \<Rightarrow> Room \<Rightarrow> Peer option" where
  "getPeerByUserId uid room = find (\<lambda>peer. userId peer = uid) (map snd (peers room))"

definition promotePeerToProducer :: "string \<Rightarrow> Room \<Rightarrow> bool \<times> Room" where
  "promotePeerToProducer peerId room =
     (case map_of (peers room) peerId of
        None \<Rightarrow> (False, room)
      | Some peer \<Rightarrow>
          if role peer = Consumer
          then (True, room\<lparr>peers := AList.update peerId (peer\<lparr>role := Producer\<rparr>) (peers room)\<rparr>)
          else (False, room))"

definition approvePeerJoin :: "string \<Rightarrow> Room \<Rightarrow> bool \<times> Room" where
  "approvePeerJoin peerId room =
     (case map_of (peers room) peerId of
        None \<Rightarrow> (False, room)
      | Some peer \<Rightarrow>
          if role peer = Waiting
          then (True, room\<lparr>peers := AList.update peerId (peer\<lparr>role := Consumer\<rparr>) (peers room)\<rparr>)
          else (False, room))"

text \<open>The handles a call closes are added to the set \<open>closed\<close> it is given.\<close>

definition closeTransport :: "Transport option \<Rightarrow> Handle set \<Rightarrow> Handle set" where
  "closeTransport t closed =
     (case t of None \<Rightarrow> closed | Some tr \<Rightarrow> insert (HTransport (transportId tr)) closed)"

definition closeProducers :: "(string, ProducerH) jsmap \<Rightarrow> Handle set \<Rightarrow> Handle set" where
  "closeProducers ps closed = fold (\<lambda>p c. insert (HProducer (producerId p)) c) (map snd ps) closed"

definition closeConsumers :: "(string, ConsumerH) jsmap \<Rightarrow> Handle set \<Rightarrow> Handle set" where
  "closeConsumers cs closed = fold (\<lambda>p c. insert (HConsumer (consumerId p)) c) (map snd cs) closed"

text \<open>
  \<open>demotePeerToConsumer\<close> returns nothing and does not look at the current role: it sets
  the role, closes and drops the send transport, closes the producers and clears their map.
\<close>

definition demotePeerToConsumer :: "string \<Rightarrow> Room \<Rightarrow> Handle set \<Rightarrow> Room \<times> Handle set" where
  "demotePeerToConsumer peerId room closed =
     (case map_of (peers room) peerId of
        None \<Rightarrow> (room, closed)
      | Some peer \<Rightarrow>
          let closed1 = closeTransport (sendTransport peer) closed;
              closed2 = closeProducers (producers peer) closed1;
              peer' = peer\<lparr>role := Consumer, sendTransport := None, producers := []\<rparr>
          in (room\<lparr>peers := AList.update peerId peer' (peers room)\<rparr>, closed2))"

definition canPeerProduce :: "string \<Rightarrow> Room \<Rightarrow> bool" where
  "canPeerProduce peerId room =
     (case map_of (peers room) peerId of
        None \<Rightarrow> False
      | Some peer \<Rightarrow> role peer = Producer \<or> role peer = Host)"

definition isHost :: "string \<Rightarrow> Room \<Rightarrow> bool" where
  "isHost peerId room =
     (case map_of (peers room) peerId of
        None \<Rightarrow> False
      | Some peer \<Rightarrow> role peer = Host \<or> peerId = hostSocketId room)"

text \<open>
  \<open>removePeer\<close> closes the producers, the consumers and both transports of the peer and
  deletes its entry. It assigns no field of the peer object, which the caller may still
  hold (the disconnect handler reads its \<open>displayName\<close> afterwards): the third component
  is that object as the call leaves it.
\<close>

definition removePeer :: "string \<Rightarrow> Room \<Rightarrow> Handle set \<Rightarrow> Room \<times> Handle set \<times> Peer option" where
  "removePeer socketId room closed =
     (case map_of (peers room) socketId of
        None \<Rightarrow> (room, closed, None)
      | Some peer \<Rightarrow>
          let closed1 = closeProducers (producers peer) closed;
              closed2 = closeConsumers (consumers peer) closed1;
              closed3 = closeTransport (sendTransport peer) closed2;
              closed4 = closeTransport (recvTransport peer) closed3
          in (room\<lparr>peers := AList.delete socketId (peers room)\<rparr>, closed4, Some peer))"

record ProducerInfo =
  infoPeerId :: string
  infoProducerId :: string
  infoKind :: MediaKind
  infoDisplayName :: string

definition getAllProducersForPeer :: "string \<Rightarrow> Room \<Rightarrow> ProducerInfo list" where
  "getAllProducersForPeer excludePeerId room =
     concat (map (\<lambda>(peerId, peer).
        if excludePeerId \<noteq> [] \<and> peerId = excludePeerId then []
        else map (\<lambda>(pid, producer).
               \<lparr> infoPeerId = peerId, infoProducerId = pid,
                 infoKind = producerKind producer, infoDisplayName = displayName peer \<rparr>)
             (producers peer))
       (peers room))"

definition getPeerCount :: "Room \<Rightarrow> nat" where
  "getPeerCount room = length (peers room)"

definition isEmpty :: "Room \<Rightarrow> bool" where
  "isEmpty room = (length (peers room) = 0)"

text \<open>
  \<open>close\<close> removes every peer, then closes the router. The loop runs over the live map
  while \<open>removePeer\<close> deletes from it, which visits each entry once.
\<close>

definition close_room :: "Room \<Rightarrow> Handle set \<Rightarrow> Room \<times> Handle set" where
  "close_room room closed =
     (let (room', closed') =
            fold (\<lambda>sid (r, c). let (r', c', p) = removePeer sid r c in (r', c'))
                 (map (\<lambda>(k, peer). peer_id peer) (peers room)) (room, closed)
      in (room', insert (HRouter (routerId (router room))) closed'))"

section \<open>Signalling handlers (src/server.ts)\<close>

text \<open>
  The process state: the registry \<open>rooms\<close>, the \<open>inviteManager\<close> singleton and the
  handles closed so far. A handler runs for one connection (\<open>socket.id\<close> is its first
  argument) and is one step: it takes the state, the request and what the media engine
  answers to the calls it makes (\<open>None\<close> where the engine throws), and returns the reply
  given to \<open>callback\<close> and the new state. Notifications sent to other sockets and log
  lines are not part of the model, nor is the lookup by user id that \<open>join\<close> only logs.
  A room is an object shared by reference in the source; the model writes the changed
  room back under its key. The functions of this section run a handler from its first
  line to its last with nothing in between; where a handler waits for the engine
  (\<open>await\<close>) other handlers may run meanwhile, and the section on suspended handlers
  gives the part of the handler that runs after the wait.
\<close>

record World =
  rooms :: "(string, Room) jsmap"
  inviteManager :: InviteManager
  closed :: "Handle set"

definition initial :: World where
  "initial = \<lparr> rooms = [], inviteManager = [], closed = {} \<rparr>"

type_synonym Participant = "string \<times> string \<times> string \<times> PeerRole"

datatype Reply =
    Error string
  | Joined string "ProducerInfo list" "Participant list" PeerRole string
  | TransportParams Transport
  | Connected
  | Produced string
  | Consumed ConsumerH string Transport
  | Resumed
  | Promoted
  | Approved bool
  | Demoted
  | Requested

definition putRoom :: "string \<Rightarrow> Room \<Rightarrow> World \<Rightarrow> World" where
  "putRoom roomId room w = w\<lparr>rooms := AList.update roomId room (rooms w)\<rparr>"

definition putPeer :: "string \<Rightarrow> Peer \<Rightarrow> Room \<Rightarrow> Room" where
  "putPeer socketId peer room = room\<lparr>peers := AList.update socketId peer (peers room)\<rparr>"

text \<open>
  \<open>ensureRoom\<close> returns the registered room or creates one: \<open>Room.create\<close> asks the
  engine for a router (the step fails when that throws, before anything is stored), the
  room is registered and a session is created for it. The source waits for the router
  between \<open>rooms.get\<close> and \<open>rooms.set\<close>; this definition is the case where no other
  handler runs during the wait, \<open>join_resumed\<close> below is the case where some do.
\<close>

definition ensureRoom ::
  "nat \<Rightarrow> Router option \<Rightarrow> string \<Rightarrow> string \<Rightarrow> string \<Rightarrow> World \<Rightarrow> (Room \<times> World) option" where
  "ensureRoom now newRouter roomId hostSock hostName w =
     (case map_of (rooms w) roomId of
        Some room \<Rightarrow> Some (room, w)
      | None \<Rightarrow>
          (case newRouter of
             None \<Rightarrow> None
           | Some rt \<Rightarrow>
               let room = \<lparr> room_id = roomId, router = rt, peers = [],
                            hostSocketId = hostSock, createdAt = now \<rparr>;
                   w1 = w\<lparr>rooms := AList.update roomId room (rooms w)\<rparr>;
                   (res, sessions) = createRoomSession now roomId hostSock hostName (inviteManager w1)
               in Some (room, w1\<lparr>inviteManager := sessions\<rparr>)))"

definition tokenRejected :: "nat \<Rightarrow> string \<Rightarrow> Token option \<Rightarrow> bool" where
  "tokenRejected now roomId inviteToken =
     (case inviteToken of
        None \<Rightarrow> False
      | Some t \<Rightarrow>
          if truthy t
          then (let (rid, valid) = verifyInviteToken now t in \<not> valid \<or> rid \<noteq> roomId)
          else False)"

definition participantsOf :: "Room \<Rightarrow> Participant list" where
  "participantsOf room =
     map (\<lambda>(k, p). (peer_id p, userId p, displayName p, role p)) (peers room)"

definition join ::
  "string \<Rightarrow> string \<Rightarrow> string \<Rightarrow> string \<Rightarrow> string \<Rightarrow> Token option \<Rightarrow> nat \<Rightarrow> Router option
     \<Rightarrow> World \<Rightarrow> Reply \<times> World" where
  "join sid roomId uid dname caps inviteToken now newRouter w =
     (if tokenRejected now roomId inviteToken
      then (Error ''Invalid or expired invite token'', w)
      else
        (case ensureRoom now newRouter roomId sid dname w of
           None \<Rightarrow> (Error ''Failed to join room'', w)
         | Some (room, w1) \<Rightarrow>
             let r = (if getPeerCount room = 0 then Host else Waiting);
                 (added, room1) = addPeer sid uid dname r room
             in (case getPeer sid room1 of
                   None \<Rightarrow> (Error ''Failed to add peer to room'', putRoom roomId room1 w1)
                 | Some peer \<Rightarrow>
                     let room2 = putPeer sid (peer\<lparr>rtpCapabilities := Some caps\<rparr>) room1;
                         allProducers =
                           (if r = Waiting then [] else getAllProducersForPeer sid room2)
                     in (Joined (getRtpCapabilities room2) allProducers
                           (participantsOf room2) r sid,
                         putRoom roomId room2 w1))))"

definition createTransport ::
  "string \<Rightarrow> string \<Rightarrow> TransportKind \<Rightarrow> Transport option \<Rightarrow> World \<Rightarrow> Reply \<times> World" where
  "createTransport sid roomId kind newTransport w =
     (case map_of (rooms w) roomId of
        None \<Rightarrow> (Error ''Room not found'', w)
      | Some room \<Rightarrow>
          (case getPeer sid room of
             None \<Rightarrow> (Error ''Peer not found'', w)
           | Some peer \<Rightarrow>
               if kind = Send \<and> \<not> canPeerProduce sid room
               then (Error ''Permission denied: You do not have permission to produce media. Wait for host approval.'', w)
               else if kind = Recv \<and> role peer = Waiting
               then (Error ''Permission denied: waiting for host approval.'', w)
               else if kind = Send
               then (case sendTransport peer of
                       Some t \<Rightarrow> (TransportParams t, w)
                     | None \<Rightarrow>
                         (case newTransport of
                            None \<Rightarrow> (Error ''Failed to create transport'', w)
                          | Some t \<Rightarrow>
                              (TransportParams t,
                               putRoom roomId (putPeer sid (peer\<lparr>sendTransport := Some t\<rparr>) room) w)))
               else (case recvTransport peer of
                       Some t \<Rightarrow> (TransportParams t, w)
                     | None \<Rightarrow>
                         (case newTransport of
                            None \<Rightarrow> (Error ''Failed to create transport'', w)
                          | Some t \<Rightarrow>
                              (TransportParams t,
                               putRoom roomId (putPeer sid (peer\<lparr>recvTransport := Some t\<rparr>) room) w)))))"

text \<open>\<open>connectResult\<close> is \<open>False\<close> when \<open>transport.connect\<close> throws.\<close>

definition connectTransport ::
  "string \<Rightarrow> string \<Rightarrow> string \<Rightarrow> bool \<Rightarrow> World \<Rightarrow> Reply \<times> World" where
  "connectTransport sid roomId tid connectResult w =
     (case map_of (rooms w) roomId of
        None \<Rightarrow> (Error ''Room not found'', w)
      | Some room \<Rightarrow>
          (case getPeer sid room of
             None \<Rightarrow> (Error ''Peer not found'', w)
           | Some peer \<Rightarrow>
               let transport =
                     (if map_option transportId (sendTransport peer) \<noteq> Some tid
                      then recvTransport peer else sendTransport peer)
               in (case transport of
                     None \<Rightarrow> (Error ''Transport not found'', w)
                   | Some t \<Rightarrow>
                       if transportId t \<noteq> tid then (Error ''Transport not found'', w)
                       else if connectResult then (Connected, w)
                       else (Error ''Failed to connect transport'', w))))"

definition produce ::
  "string \<Rightarrow> string \<Rightarrow> string \<Rightarrow> MediaKind \<Rightarrow> ProducerH option \<Rightarrow> World \<Rightarrow> Reply \<times> World" where
  "produce sid roomId tid kind newProducer w =
     (case map_of (rooms w) roomId of
        None \<Rightarrow> (Error ''Room not found'', w)
      | Some room \<Rightarrow>
          (case getPeer sid room of
             None \<Rightarrow> (Error ''Peer not found'', w)
           | Some peer \<Rightarrow>
               if \<not> canPeerProduce sid room
               then (Error ''Permission denied: You do not have permission to produce media'', w)
               else (case sendTransport peer of
                       None \<Rightarrow> (Error ''Send transport not found'', w)
                     | Some t \<Rightarrow>
                         if transportId t \<noteq> tid then (Error ''Send transport not found'', w)
                         else (case newProducer of
                                 None \<Rightarrow> (Error ''Failed to produce'', w)
                               | Some producer \<Rightarrow>
                                   (Produced (producerId producer),
                                    putRoom roomId
                                      (putPeer sid
                                         (peer\<lparr>producers :=
                                            AList.update (producerId producer) producer (producers peer)\<rparr>)
                                         room) w)))))"

text \<open>
  The consume handler checks the room, the peer and \<open>router.canConsume\<close>, and nothing
  else, before it creates the receive transport the peer lacks. \<open>canConsume\<close> is \<open>None\<close>
  when the engine throws; a transport created before a later call throws stays on the
  peer.
\<close>

definition consume ::
  "string \<Rightarrow> string \<Rightarrow> string \<Rightarrow> bool option \<Rightarrow> Transport option \<Rightarrow> ConsumerH option
     \<Rightarrow> World \<Rightarrow> Reply \<times> World" where
  "consume sid roomId prodId canConsume newTransport newConsumer w =
     (case map_of (rooms w) roomId of
        None \<Rightarrow> (Error ''Room not found'', w)
      | Some room \<Rightarrow>
          (case getPeer sid room of
             None \<Rightarrow> (Error ''Peer not found'', w)
           | Some peer \<Rightarrow>
               (case canConsume of
                  None \<Rightarrow> (Error ''Failed to consume'', w)
                | Some False \<Rightarrow> (Error ''Cannot consume'', w)
                | Some True \<Rightarrow>
                    (case (case recvTransport peer of
                             Some t \<Rightarrow> Some peer
                           | None \<Rightarrow> map_option (\<lambda>t. peer\<lparr>recvTransport := Some t\<rparr>) newTransport) of
                       None \<Rightarrow> (Error ''Failed to consume'', w)
                     | Some peer1 \<Rightarrow>
                         (case recvTransport peer1 of
                            None \<Rightarrow> (Error ''Failed to consume'', w)
                          | Some transport \<Rightarrow>
                              (case newConsumer of
                                 None \<Rightarrow>
                                   (Error ''Failed to consume'',
                                    putRoom roomId (putPeer sid peer1 room) w)
                               | Some consumer \<Rightarrow>
                                   (Consumed consumer prodId transport,
                                    putRoom roomId
                                      (putPeer sid
                                         (peer1\<lparr>consumers :=
                                            AList.update (consumerId consumer) consumer (consumers peer1)\<rparr>)
                                         room) w)))))))"

definition resumeConsumer :: "string \<Rightarrow> string \<Rightarrow> string \<Rightarrow> World \<Rightarrow> Reply \<times> World" where
  "resumeConsumer sid roomId consId w =
     (case map_of (rooms w) roomId of
        None \<Rightarrow> (Error ''Room not found'', w)
      | Some room \<Rightarrow>
          (case getPeer sid room of
             None \<Rightarrow> (Error ''Peer not found'', w)
           | Some peer \<Rightarrow> (Resumed, w)))"

definition promoteToProducer :: "string \<Rightarrow> string \<Rightarrow> string \<Rightarrow> World \<Rightarrow> Reply \<times> World" where
  "promoteToProducer sid roomId peerId w =
     (case map_of (rooms w) roomId of
        None \<Rightarrow> (Error ''Room not found'', w)
      | Some room \<Rightarrow>
          if \<not> isHost sid room then (Error ''Only host can approve permissions'', w)
          else (case getPeer peerId room of
                  None \<Rightarrow> (Error ''Peer not found'', w)
                | Some targetPeer \<Rightarrow>
                    let (success, room1) = promotePeerToProducer peerId room
                    in if \<not> success
                       then (Error ''Peer is already a producer or host'', putRoom roomId room1 w)
                       else (Promoted, putRoom roomId room1 w)))"

definition approveJoin :: "string \<Rightarrow> string \<Rightarrow> string \<Rightarrow> bool \<Rightarrow> World \<Rightarrow> Reply \<times> World" where
  "approveJoin sid roomId peerId promote w =
     (case map_of (rooms w) roomId of
        None \<Rightarrow> (Error ''Room not found'', w)
      | Some room \<Rightarrow>
          if \<not> isHost sid room then (Error ''Only host can approve joining'', w)
          else (case getPeer peerId room of
                  None \<Rightarrow> (Error ''Peer not found'', w)
                | Some targetPeer \<Rightarrow>
                    let (success, room1) = approvePeerJoin peerId room
                    in if \<not> success
                       then (Error ''Peer is not waiting'', putRoom roomId room1 w)
                       else let room2 = (if promote then snd (promotePeerToProducer peerId room1)
                                         else room1)
                            in (Approved promote, putRoom roomId room2 w)))"

definition demoteToConsumer :: "string \<Rightarrow> string \<Rightarrow> string \<Rightarrow> World \<Rightarrow> Reply \<times> World" where
  "demoteToConsumer sid roomId peerId w =
     (case map_of (rooms w) roomId of
        None \<Rightarrow> (Error ''Room not found'', w)
      | Some room \<Rightarrow>
          if \<not> isHost sid room then (Error ''Only host can revoke permissions'', w)
          else (case getPeer peerId room of
                  None \<Rightarrow> (Error ''Peer not found'', w)
                | Some targetPeer \<Rightarrow>
                    if role targetPeer = Host then (Error ''Cannot demote host'', w)
                    else let (room1, closed1) = demotePeerToConsumer peerId room (closed w)
                         in (Demoted, (putRoom roomId room1 w)\<lparr>closed := closed1\<rparr>)))"

definition requestSpeakingPermission :: "string \<Rightarrow> string \<Rightarrow> World \<Rightarrow> Reply \<times> World" where
  "requestSpeakingPermission sid roomId w =
     (case map_of (rooms w) roomId of
        None \<Rightarrow> (Error ''Room not found'', w)
      | Some room \<Rightarrow>
          (case getPeer sid room of
             None \<Rightarrow> (Error ''Peer not found'', w)
           | Some peer \<Rightarrow>
               if role peer = Producer \<or> role peer = Host
               then (Error ''Already have speaking permission'', w)
               else (Requested, w)))"

text \<open>
  The disconnect handler visits every registered room. Where the socket is a peer, it
  closes the peer's handles, calls \<open>removePeer\<close> (which closes them again) and, when the
  room is then empty, closes the room, deletes it from the registry and removes its
  session.
\<close>

definition disconnect_room :: "string \<Rightarrow> string \<Rightarrow> Room \<Rightarrow> World \<Rightarrow> World" where
  "disconnect_room sid roomId room w =
     (case getPeer sid room of
        None \<Rightarrow> w
      | Some peer \<Rightarrow>
          let c1 = closeProducers (producers peer) (closed w);
              c2 = closeConsumers (consumers peer) c1;
              c3 = closeTransport (sendTransport peer) c2;
              c4 = closeTransport (recvTransport peer) c3;
              (room1, c5, removed) = removePeer sid room c4
          in if isEmpty room1
             then let (room2, c6) = close_room room1 c5
                  in w\<lparr> rooms := AList.delete roomId (rooms w),
                        inviteManager := removeRoomSession roomId (inviteManager w),
                        closed := c6 \<rparr>
             else (putRoom roomId room1 w)\<lparr>closed := c5\<rparr>)"

definition disconnect :: "string \<Rightarrow> World \<Rightarrow> World" where
  "disconnect sid w = fold (\<lambda>(roomId, room) w'. disconnect_room sid roomId room w') (rooms w) w"

text \<open>
  \<open>POST /api/rooms\<close> names a room after the clock, creates its session ahead of any
  connection (with an empty host socket id) and answers with the room id, the invite
  link, the token and the host name.
\<close>

function decimal :: "nat \<Rightarrow> string" where
  "decimal n =
     (if n < 10 then [char_of (48 + n)]
      else decimal (n div 10) @ [char_of (48 + n mod 10)])"
  by pat_completeness auto
termination
  by (relation "measure id") auto

definition postRooms ::
  "nat \<Rightarrow> string \<Rightarrow> string \<Rightarrow> World
     \<Rightarrow> (string \<times> (string \<times> string \<times> Token) \<times> Token \<times> string) \<times> World" where
  "postRooms now hostName baseUrl w =
     (let roomId = ''room-'' @ decimal now;
          (res, sessions) = createRoomSession now roomId [] hostName (inviteManager w);
          inviteLink = generateInviteLink now roomId baseUrl sessions
      in ((roomId, inviteLink, snd res, hostName), w\<lparr>inviteManager := sessions\<rparr>))"

section \<open>Suspended handlers (src/server.ts)\<close>

text \<open>
  Four handlers wait for the media engine: \<open>join\<close> (in \<open>ensureRoom\<close>, for the router
  of a room it did not find), \<open>createTransport\<close>, \<open>produce\<close> and \<open>consume\<close>. While one
  waits, any other handler may run. The definitions here are what the handler does
  when the engine has answered, from the line after the \<open>await\<close> to its end, in the
  state it finds then, with no check made again. Before the wait such a handler has
  only read the state.

  A join that found no room under its id gets its router: it builds the room with the
  joining connection as \<open>hostSocketId\<close>, stores it with \<open>rooms.set\<close> (in place of a room
  another join may have registered meanwhile), creates the session, and goes on with
  the room it built: the peer count of that room is 0, the peer is added to it, and the
  reply is sent. A room replaced in the registry is reachable by no later request; the
  state does not keep it.
\<close>

definition join_resumed ::
  "string \<Rightarrow> string \<Rightarrow> string \<Rightarrow> string \<Rightarrow> string \<Rightarrow> nat \<Rightarrow> Router option
     \<Rightarrow> World \<Rightarrow> Reply \<times> World" where
  "join_resumed sid roomId uid dname caps now newRouter w =
     (case newRouter of
        None \<Rightarrow> (Error ''Failed to join room'', w)
      | Some rt \<Rightarrow>
          let room = \<lparr> room_id = roomId, router = rt, peers = [],
                       hostSocketId = sid, createdAt = now \<rparr>;
              w0 = w\<lparr>rooms := AList.update roomId room (rooms w)\<rparr>;
              (res, sessions) = createRoomSession now roomId sid dname (inviteManager w0);
              w1 = w0\<lparr>inviteManager := sessions\<rparr>;
              r = (if getPeerCount room = 0 then Host else Waiting);
              (added, room1) = addPeer sid uid dname r room
          in (case getPeer sid room1 of
                None \<Rightarrow> (Error ''Failed to add peer to room'', putRoom roomId room1 w1)
              | Some peer \<Rightarrow>
                  let room2 = putPeer sid (peer\<lparr>rtpCapabilities := Some caps\<rparr>) room1;
                      allProducers =
                        (if r = Waiting then [] else getAllProducersForPeer sid room2)
                  in (Joined (getRtpCapabilities room2) allProducers
                        (participantsOf room2) r sid,
                      putRoom roomId room2 w1)))"

text \<open>
  The other three handlers hold the peer object they looked up before the wait and
  write one field of it afterwards: the new transport, the new producer, the new
  consumer. When that object is still the registered peer, the write shows in the
  state as below, on the peer as it is then. When the peer has left or its entry has
  been replaced meanwhile, the write goes to an object the registry no longer holds and
  the state stays as it is. \<open>consume\<close> waits twice, for the receive transport it lacks
  and for the consumer; it replies after the second wait, with the transport it held
  before it.
\<close>

definition createTransport_resumed ::
  "string \<Rightarrow> string \<Rightarrow> TransportKind \<Rightarrow> Transport \<Rightarrow> World \<Rightarrow> Reply \<times> World" where
  "createTransport_resumed sid roomId kind t w =
     (TransportParams t,
      (case map_of (rooms w) roomId of
         None \<Rightarrow> w
       | Some room \<Rightarrow>
           (case getPeer sid room of
              None \<Rightarrow> w
            | Some peer \<Rightarrow>
                putRoom roomId
                  (putPeer sid
                     (if kind = Send then peer\<lparr>sendTransport := Some t\<rparr>
                      else peer\<lparr>recvTransport := Some t\<rparr>) room) w)))"

definition produce_resumed ::
  "string \<Rightarrow> string \<Rightarrow> ProducerH \<Rightarrow> World \<Rightarrow> Reply \<times> World" where
  "produce_resumed sid roomId producer w =
     (Produced (producerId producer),
      (case map_of (rooms w) roomId of
         None \<Rightarrow> w
       | Some room \<Rightarrow>
           (case getPeer sid room of
              None \<Rightarrow> w
            | Some peer \<Rightarrow>
                putRoom roomId
                  (putPeer sid
                     (peer\<lparr>producers :=
                        AList.update (producerId producer) producer (producers peer)\<rparr>)
                     room) w)))"

definition consume_transport_resumed ::
  "string \<Rightarrow> string \<Rightarrow> Transport \<Rightarrow> World \<Rightarrow> World" where
  "consume_transport_resumed sid roomId t w =
     (case map_of (rooms w) roomId of
        None \<Rightarrow> w
      | Some room \<Rightarrow>
          (case getPeer sid room of
             None \<Rightarrow> w
           | Some peer \<Rightarrow> putRoom roomId (putPeer sid (peer\<lparr>recvTransport := Some t\<rparr>) room) w))"

definition consume_resumed ::
  "string \<Rightarrow> string \<Rightarrow> string \<Rightarrow> Transport \<Rightarrow> ConsumerH \<Rightarrow> World \<Rightarrow> Reply \<times> World" where
  "consume_resumed sid roomId prodId transport consumer w =
     (Consumed consumer prodId transport,
      (case map_of (rooms w) roomId of
         None \<Rightarrow> w
       | Some room \<Rightarrow>
           (case getPeer sid room of
              None \<Rightarrow> w
            | Some peer \<Rightarrow>
                putRoom roomId
                  (putPeer sid
                     (peer\<lparr>consumers :=
                        AList.update (consumerId consumer) consumer (consumers peer)\<rparr>)
                     room) w)))"

section \<open>Runs of the server\<close>

text \<open>
  An event is a request handled from its first line to its last with the engine's
  answers, or the part after the wait of a handler that was suspended; \<open>step\<close> is its
  state change. A suspended handler changes nothing before its wait, so its first part
  is no event. The reachable states are those a sequence of events produces from the
  empty registry: requests may overlap in every way the waits allow.
\<close>

datatype Event =
    EJoin string string string string string "Token option" nat "Router option"
  | ECreateTransport string string TransportKind "Transport option"
  | EConnectTransport string string string bool
  | EProduce string string string MediaKind "ProducerH option"
  | EConsume string string string "bool option" "Transport option" "ConsumerH option"
  | EResumeConsumer string string string
  | EPromoteToProducer string string string
  | EApproveJoin string string string bool
  | EDemoteToConsumer string string string
  | ERequestSpeakingPermission string string
  | EDisconnect string
  | EPostRooms nat string string
  | EJoinResumed string string string string string nat "Router option"
  | ECreateTransportResumed string string TransportKind Transport
  | EProduceResumed string string ProducerH
  | EConsumeTransportResumed string string Transport
  | EConsumeResumed string string string Transport ConsumerH

fun step :: "Event \<Rightarrow> World \<Rightarrow> World" where
  "step (EJoin sid roomId uid dname caps tok now newRouter) w =
     snd (join sid roomId uid dname caps tok now newRouter w)"
| "step (ECreateTransport sid roomId kind newTransport) w =
     snd (createTransport sid roomId kind newTransport w)"
| "step (EConnectTransport sid roomId tid ok) w = snd (connectTransport sid roomId tid ok w)"
| "step (EProduce sid roomId tid kind newProducer) w =
     snd (produce sid roomId tid kind newProducer w)"
| "step (EConsume sid roomId prodId canConsume newTransport newConsumer) w =
     snd (consume sid roomId prodId canConsume newTransport newConsumer w)"
| "step (EResumeConsumer sid roomId consId) w = snd (resumeConsumer sid roomId consId w)"
| "step (EPromoteToProducer sid roomId peerId) w = snd (promoteToProducer sid roomId peerId w)"
| "step (EApproveJoin sid roomId peerId promote) w =
     snd (approveJoin sid roomId peerId promote w)"
| "step (EDemoteToConsumer sid roomId peerId) w = snd (demoteToConsumer sid roomId peerId w)"
| "step (ERequestSpeakingPermission sid roomId) w = snd (requestSpeakingPermission sid roomId w)"
| "step (EDisconnect sid) w = disconnect sid w"
| "step (EPostRooms now hostName baseUrl) w = snd (postRooms now hostName baseUrl w)"
| "step (EJoinResumed sid roomId uid dname caps now newRouter) w =
     snd (join_resumed sid roomId uid dname caps now newRouter w)"
| "step (ECreateTransportResumed sid roomId kind t) w =
     snd (createTransport_resumed sid roomId kind t w)"
| "step (EProduceResumed sid roomId producer) w = snd (produce_resumed sid roomId producer w)"
| "step (EConsumeTransportResumed sid roomId t) w = consume_transport_resumed sid roomId t w"
| "step (EConsumeResumed sid roomId prodId transport consumer) w =
     snd (consume_resumed sid roomId prodId transport consumer w)"

inductive reachable :: "World \<Rightarrow> bool" where
  reachable_initial: "reachable initial"
| reachable_step: "reachable w \<Longrightarrow> reachable (step e w)"

definition peerOf :: "World \<Rightarrow> string \<Rightarrow> string \<Rightarrow> Peer option" where
  "peerOf w roomId sid =
     (case map_of (rooms w) roomId of None \<Rightarrow> None | Some room \<Rightarrow> getPeer sid room)"

section \<open>Example states\<close>

text \<open>
  The room \<open>r1\<close>, created by the connection \<open>s1\<close> at time 0, with the given peers and
  nothing closed yet, and handles the engine may hand out.
\<close>

definition ex_router :: Router where
  "ex_router = \<lparr> routerId = ''router1'', rtpCapabilitiesOf = ''caps'' \<rparr>"

definition ex_session :: RoomSession where
  "ex_session = \<lparr> sessHostSocketId = ''s1'', sessHostName = ''Ann'', sessCreatedAt = 0,
                  sessInviteToken = Some (generateInviteToken 0 ''r1'' ''Ann'') \<rparr>"

definition ex_peer :: "string \<Rightarrow> string \<Rightarrow> string \<Rightarrow> PeerRole \<Rightarrow> Peer" where
  "ex_peer sid uid dname r =
     \<lparr> peer_id = sid, userId = uid, displayName = dname, role = r,
       sendTransport = None, recvTransport = None, producers = [], consumers = [],
       rtpCapabilities = Some ''caps'' \<rparr>"

definition ex_room :: "Peer list \<Rightarrow> Room" where
  "ex_room ps = \<lparr> room_id = ''r1'', router = ex_router, peers = map (\<lambda>p. (peer_id p, p)) ps,
                  hostSocketId = ''s1'', createdAt = 0 \<rparr>"

definition ex_world :: "Peer list \<Rightarrow> World" where
  "ex_world ps =
     \<lparr> rooms = [(''r1'', ex_room ps)], inviteManager = [(''r1'', ex_session)], closed = {} \<rparr>"

definition ex_t1 :: Transport where
  "ex_t1 = \<lparr> transportId = ''t1'', transportParams = ''ice1'' \<rparr>"

definition ex_t2 :: Transport where
  "ex_t2 = \<lparr> transportId = ''t2'', transportParams = ''ice2'' \<rparr>"

definition ex_p1 :: ProducerH where
  "ex_p1 = \<lparr> producerId = ''p1'', producerKind = Audio \<rparr>"

definition ex_c1 :: ConsumerH where
  "ex_c1 = \<lparr> consumerId = ''c1'', consumerKind = Audio \<rparr>"

section \<open>Invariants of a run\<close>

text \<open>
  \<open>roleStepOk r r'\<close>: a role change that neither makes a host nor unmakes one.
  \<open>touches w w'\<close>: the registry of \<open>w'\<close> is that of \<open>w\<close>, or that of \<open>w\<close> with one peer
  of one room replaced by a peer whose role change is of that kind. \<open>roomOk\<close>: the room
  has a peer, and a peer in role host is the connection recorded at the room's creation.
  \<open>wellFormed\<close>: the registry has no key twice and every registered room is \<open>roomOk\<close>.
  \<open>joinedPeer\<close> is the peer a successful join registers, \<open>handlesOf\<close> the handles of a
  peer, \<open>rejoins e s rid\<close> says that the event is a join of connection \<open>s\<close> into
  room \<open>rid\<close>, and \<open>resumesJoin e s rid\<close> that it is the part after the wait of a
  suspended join of \<open>s\<close> into \<open>rid\<close>.
\<close>

definition roleStepOk :: "PeerRole \<Rightarrow> PeerRole \<Rightarrow> bool" where
  "roleStepOk r r' = (r' = r \<or> (r \<noteq> Host \<and> r' \<noteq> Host))"

inductive touches :: "World \<Rightarrow> World \<Rightarrow> bool" where
  touches_same: "rooms w' = rooms w \<Longrightarrow> touches w w'"
| touches_peer: "map_of (rooms w) rid = Some room \<Longrightarrow> getPeer x room = Some p
     \<Longrightarrow> roleStepOk (role p) (role p')
     \<Longrightarrow> rooms w' = AList.update rid (putPeer x p' room) (rooms w) \<Longrightarrow> touches w w'"

definition roomOk :: "Room \<Rightarrow> bool" where
  "roomOk room =
     (peers room \<noteq> []
      \<and> (\<forall>s p. getPeer s room = Some p \<longrightarrow> role p = Host \<longrightarrow> s = hostSocketId room))"

definition wellFormed :: "World \<Rightarrow> bool" where
  "wellFormed w =
     (distinct (map fst (rooms w))
      \<and> (\<forall>rid room. map_of (rooms w) rid = Some room \<longrightarrow> roomOk room))"

definition joinedPeer :: "string \<Rightarrow> string \<Rightarrow> string \<Rightarrow> PeerRole \<Rightarrow> string \<Rightarrow> Peer" where
  "joinedPeer sid uid dname r caps =
     \<lparr> peer_id = sid, userId = uid, displayName = dname, role = r,
       sendTransport = None, recvTransport = None, producers = [], consumers = [],
       rtpCapabilities = Some caps \<rparr>"

definition handlesOf :: "Peer \<Rightarrow> Handle set" where
  "handlesOf peer =
     (\<lambda>p. HProducer (producerId p)) ` snd ` set (producers peer)
     \<union> (\<lambda>p. HConsumer (consumerId p)) ` snd ` set (consumers peer)
     \<union> (\<lambda>tr. HTransport (transportId tr)) ` set_option (sendTransport peer)
     \<union> (\<lambda>tr. HTransport (transportId tr)) ` set_option (recvTransport peer)"

fun rejoins :: "Event \<Rightarrow> string \<Rightarrow> string \<Rightarrow> bool" where
  "rejoins (EJoin sid roomId uid dname caps tok now newRouter) s rid = (sid = s \<and> roomId = rid)"
| "rejoins e s rid = False"

fun resumesJoin :: "Event \<Rightarrow> string \<Rightarrow> string \<Rightarrow> bool" where
  "resumesJoin (EJoinResumed sid roomId uid dname caps now newRouter) s rid =
     (sid = s \<and> roomId = rid)"
| "resumesJoin e s rid = False"

section \<open>Closing handles\<close>

lemma closeProducers_eq:
  "closeProducers ps c = c \<union> (\<lambda>p. HProducer (producerId p)) ` snd ` set ps"
  unfolding closeProducers_def
  by (induction ps arbitrary: c) auto

lemma closeConsumers_eq:
  "closeConsumers cs c = c \<union> (\<lambda>p. HConsumer (consumerId p)) ` snd ` set cs"
  unfolding closeConsumers_def
  by (induction cs arbitrary: c) auto

lemma closeTransport_eq:
  "closeTransport t c = c \<union> (\<lambda>tr. HTransport (transportId tr)) ` set_option t"
  by (cases t) (auto simp: closeTransport_def)

section \<open>Invite sessions\<close>

text \<open>
  C9, as stated: calling \<open>createRoomSession\<close> for a room whose session holds a token
  returns that stored token. It does not: a session created at time 0 (as
  \<open>POST /api/rooms\<close> does) holds the token minted then, and a second call five seconds
  later (as the first \<open>join\<close> of that room does through \<open>ensureRoom\<close>) returns another
  token.
\<close>

theorem createRoomSession_reuse_counterexample:
  "map_option sessInviteToken
     (map_of (snd (createRoomSession 0 ''r1'' [] ''Host'' [])) ''r1'')
     = Some (Some (generateInviteToken 0 ''r1'' ''Host''))
   \<and> snd (fst (createRoomSession 5000 ''r1'' ''s1'' ''Host''
                 (snd (createRoomSession 0 ''r1'' [] ''Host'' []))))
     \<noteq> generateInviteToken 0 ''r1'' ''Host''"
  by (simp add: createRoomSession_def generateInviteToken_def jwt_sign_def Let_def)

text \<open>
  C9, amended: \<open>createRoomSession\<close> mints a token on every call, returns it and stores
  it in the session of the room, replacing the session and token stored before. The
  stored token is reused by \<open>generateInviteLink\<close>, which returns it when the session
  holds one and mints a token only when it holds none.
\<close>

theorem createRoomSession_mints:
  "snd (fst (createRoomSession now roomId hostSock hostName sessions))
     = generateInviteToken now roomId hostName
   \<and> map_of (snd (createRoomSession now roomId hostSock hostName sessions)) roomId
     = Some \<lparr> sessHostSocketId = hostSock, sessHostName = hostName, sessCreatedAt = now,
              sessInviteToken = Some (generateInviteToken now roomId hostName) \<rparr>
   \<and> (\<forall>session t. map_of sessions roomId = Some session \<and> sessInviteToken session = Some t
          \<and> truthy t
        \<longrightarrow> generateInviteLink now' roomId baseUrl sessions = (baseUrl, roomId, t))
   \<and> ((\<forall>session. map_of sessions roomId = Some session \<longrightarrow> sessInviteToken session = None)
        \<longrightarrow> generateInviteLink now' roomId baseUrl sessions
            = (baseUrl, roomId, generateInviteToken now' roomId ''host''))"
  by (auto simp: createRoomSession_def Let_def update_conv' generateInviteLink_def
           split: option.splits)

theorem createRoomSession_mints_witness:
  "snd (fst (createRoomSession 5000 ''r1'' ''s1'' ''Ann'' []))
     = generateInviteToken 5000 ''r1'' ''Ann''
   \<and> generateInviteLink 9000 ''r1'' ''http://h''
        [(''r1'', \<lparr> sessHostSocketId = ''s1'', sessHostName = ''Ann'', sessCreatedAt = 5000,
                   sessInviteToken = Some (generateInviteToken 5000 ''r1'' ''Ann'') \<rparr>)]
     = (''http://h'', ''r1'', generateInviteToken 5000 ''r1'' ''Ann'')
   \<and> generateInviteLink 9000 ''r1'' ''http://h'' []
     = (''http://h'', ''r1'', generateInviteToken 9000 ''r1'' ''host'')"
  using createRoomSession_mints [of 5000 "''r1''" "''s1''" "''Ann''" "[]"]
        createRoomSession_mints [of 5000 "''r1''" "''s1''" "''Ann''"
          "[(''r1'', \<lparr> sessHostSocketId = ''s1'', sessHostName = ''Ann'', sessCreatedAt = 5000,
                      sessInviteToken = Some (generateInviteToken 5000 ''r1'' ''Ann'') \<rparr>)]"
          9000 "''http://h''"]
        createRoomSession_mints [of 5000 "''r1''" "''s1''" "''Ann''" "[]" 9000 "''http://h''"]
  by (simp add: truthy_def generateInviteToken_def jwt_sign_def)

section \<open>Adding a peer\<close>

text \<open>
  C4, as stated: \<open>addPeer\<close> fails when the connection id is already in the peer map and
  does not overwrite the entry. It does overwrite: in a room where \<open>s1\<close> is the host and
  holds a send transport, \<open>addPeer\<close> for \<open>s1\<close> returns normally and the entry of \<open>s1\<close> is
  a fresh waiting peer.
\<close>

theorem addPeer_overwrite_counterexample:
  "map_of (peers (snd (addPeer ''s1'' ''u2'' ''Bob'' Waiting
      \<lparr> room_id = ''r1'', router = \<lparr> routerId = ''rt1'', rtpCapabilitiesOf = ''caps'' \<rparr>,
        peers = [(''s1'', \<lparr> peer_id = ''s1'', userId = ''u1'', displayName = ''Ann'', role = Host,
                   sendTransport = Some \<lparr> transportId = ''t1'', transportParams = ''x'' \<rparr>,
                   recvTransport = None, producers = [], consumers = [],
                   rtpCapabilities = None \<rparr>)],
        hostSocketId = ''s1'', createdAt = 0 \<rparr>))) ''s1''
   = Some \<lparr> peer_id = ''s1'', userId = ''u2'', displayName = ''Bob'', role = Waiting,
            sendTransport = None, recvTransport = None, producers = [], consumers = [],
            rtpCapabilities = None \<rparr>"
  by (simp add: addPeer_def Let_def)

text \<open>
  C4, amended: \<open>addPeer\<close> never fails. It returns a fresh peer (the given user, name and
  role, no transport, no producer, no consumer) and stores it under the connection id,
  in place of the entry stored there if there is one; the other entries stay.
\<close>

theorem addPeer_always_stores:
  "fst (addPeer socketId uid dname r room)
     = \<lparr> peer_id = socketId, userId = uid, displayName = dname, role = r,
         sendTransport = None, recvTransport = None, producers = [], consumers = [],
         rtpCapabilities = None \<rparr>
   \<and> map_of (peers (snd (addPeer socketId uid dname r room)))
     = (map_of (peers room))(socketId \<mapsto> fst (addPeer socketId uid dname r room))"
  by (simp add: addPeer_def Let_def update_conv')

section \<open>Lookups after a write\<close>

lemmas ex_defs = ex_world_def ex_room_def ex_peer_def ex_router_def ex_session_def
  ex_t1_def ex_t2_def ex_p1_def ex_c1_def

lemma map_of_putRoom:
  "map_of (rooms (putRoom roomId room w)) = (map_of (rooms w))(roomId \<mapsto> room)"
  by (simp add: putRoom_def update_conv')

lemma putRoom_other [simp]:
  "closed (putRoom roomId room w) = closed w"
  "inviteManager (putRoom roomId room w) = inviteManager w"
  by (simp_all add: putRoom_def)

lemma getPeer_putPeer:
  "getPeer s (putPeer socketId peer room) = (if s = socketId then Some peer else getPeer s room)"
  by (simp add: getPeer_def putPeer_def update_conv')

lemma peerOf_putRoom:
  "peerOf (putRoom roomId room w) rid s =
     (if rid = roomId then getPeer s room else peerOf w rid s)"
  by (simp add: peerOf_def map_of_putRoom)

lemma canPeerProduce_putPeer:
  "canPeerProduce s (putPeer socketId peer room) =
     (if s = socketId then role peer = Producer \<or> role peer = Host else canPeerProduce s room)"
  by (simp add: canPeerProduce_def putPeer_def update_conv')

section \<open>Demotion\<close>

lemma demotePeerToConsumer_Some:
  assumes "map_of (peers room) peerId = Some peer"
  shows "demotePeerToConsumer peerId room c =
           (putPeer peerId (peer\<lparr>role := Consumer, sendTransport := None, producers := []\<rparr>) room,
            c \<union> (\<lambda>tr. HTransport (transportId tr)) ` set_option (sendTransport peer)
              \<union> (\<lambda>p. HProducer (producerId p)) ` snd ` set (producers peer))"
  using assms
  by (simp add: demotePeerToConsumer_def Let_def closeProducers_eq closeTransport_eq putPeer_def)

text \<open>
  C5: when the host demotes a peer whose role is producer, the request succeeds, the
  peer's role is consumer, its producer map is empty, its send transport is gone, and
  the send transport and every producer it held have been closed.
\<close>

theorem demoteToConsumer_producer:
  assumes "map_of (rooms w) roomId = Some room"
    and "isHost sid room"
    and "getPeer peerId room = Some peer"
    and "role peer = Producer"
  shows "fst (demoteToConsumer sid roomId peerId w) = Demoted
       \<and> (\<exists>room' peer'.
             map_of (rooms (snd (demoteToConsumer sid roomId peerId w))) roomId = Some room'
           \<and> getPeer peerId room' = Some peer'
           \<and> role peer' = Consumer
           \<and> producers peer' = []
           \<and> sendTransport peer' = None)
       \<and> (\<forall>t. sendTransport peer = Some t
              \<longrightarrow> HTransport (transportId t) \<in> closed (snd (demoteToConsumer sid roomId peerId w)))
       \<and> (\<forall>p \<in> snd ` set (producers peer).
              HProducer (producerId p) \<in> closed (snd (demoteToConsumer sid roomId peerId w)))"
proof -
  from assms(3) have m: "map_of (peers room) peerId = Some peer"
    by (simp add: getPeer_def)
  have d: "demoteToConsumer sid roomId peerId w =
        (Demoted, (putRoom roomId (fst (demotePeerToConsumer peerId room (closed w))) w)
                    \<lparr>closed := snd (demotePeerToConsumer peerId room (closed w))\<rparr>)"
    using assms by (simp add: demoteToConsumer_def split_beta)
  show ?thesis
    unfolding d demotePeerToConsumer_Some [OF m]
    by (auto simp: map_of_putRoom getPeer_putPeer)
qed

theorem demoteToConsumer_producer_witness:
  "fst (demoteToConsumer ''s1'' ''r1'' ''s2''
         (ex_world [ex_peer ''s1'' ''u1'' ''Ann'' Host,
                    (ex_peer ''s2'' ''u2'' ''Bob'' Producer)
                      \<lparr>sendTransport := Some ex_t1, producers := [(''p1'', ex_p1)]\<rparr>])) = Demoted
   \<and> HTransport ''t1'' \<in> closed (snd (demoteToConsumer ''s1'' ''r1'' ''s2''
         (ex_world [ex_peer ''s1'' ''u1'' ''Ann'' Host,
                    (ex_peer ''s2'' ''u2'' ''Bob'' Producer)
                      \<lparr>sendTransport := Some ex_t1, producers := [(''p1'', ex_p1)]\<rparr>])))
   \<and> HProducer ''p1'' \<in> closed (snd (demoteToConsumer ''s1'' ''r1'' ''s2''
         (ex_world [ex_peer ''s1'' ''u1'' ''Ann'' Host,
                    (ex_peer ''s2'' ''u2'' ''Bob'' Producer)
                      \<lparr>sendTransport := Some ex_t1, producers := [(''p1'', ex_p1)]\<rparr>])))"
proof -
  let ?p2 = "(ex_peer ''s2'' ''u2'' ''Bob'' Producer)
               \<lparr>sendTransport := Some ex_t1, producers := [(''p1'', ex_p1)]\<rparr>"
  let ?ps = "[ex_peer ''s1'' ''u1'' ''Ann'' Host, ?p2]"
  have h1: "map_of (rooms (ex_world ?ps)) ''r1'' = Some (ex_room ?ps)"
    by (simp add: ex_world_def)
  have h2: "isHost ''s1'' (ex_room ?ps)"
    by (simp add: isHost_def ex_room_def ex_peer_def)
  have h3: "getPeer ''s2'' (ex_room ?ps) = Some ?p2"
    by (simp add: getPeer_def ex_room_def ex_peer_def)
  have h4: "role ?p2 = Producer"
    by (simp add: ex_peer_def)
  show ?thesis
    using demoteToConsumer_producer [OF h1 h2 h3 h4]
    by (simp add: ex_peer_def ex_t1_def ex_p1_def)
qed

section \<open>Removing a peer\<close>

text \<open>
  C6, as stated: \<open>removePeer\<close> leaves the peer's producer, consumer and transport maps
  empty. It does not touch them: the peer object it removed still lists the producer
  \<open>p1\<close> (and keeps its send transport), now closed.
\<close>

theorem removePeer_keeps_maps_counterexample:
  "map_option producers (snd (snd (removePeer ''s1''
      (ex_room [(ex_peer ''s1'' ''u1'' ''Ann'' Host)
                  \<lparr>sendTransport := Some ex_t1, producers := [(''p1'', ex_p1)]\<rparr>]) {})))
   = Some [(''p1'', ex_p1)]"
  by (simp add: removePeer_def Let_def ex_room_def ex_peer_def)

text \<open>
  C6, amended: for every peer present in a room, \<open>removePeer\<close> closes all of that peer's
  producer, consumer and transport handles (and reopens none), and the room's peer map
  no longer contains that connection id, the other peers staying as they were. The maps
  of the removed peer object are left as they were.
\<close>

theorem removePeer_closes_and_deletes:
  assumes "getPeer socketId room = Some peer"
  shows "(\<forall>p \<in> snd ` set (producers peer).
            HProducer (producerId p) \<in> fst (snd (removePeer socketId room c)))
       \<and> (\<forall>x \<in> snd ` set (consumers peer).
            HConsumer (consumerId x) \<in> fst (snd (removePeer socketId room c)))
       \<and> (\<forall>t. sendTransport peer = Some t
            \<longrightarrow> HTransport (transportId t) \<in> fst (snd (removePeer socketId room c)))
       \<and> (\<forall>t. recvTransport peer = Some t
            \<longrightarrow> HTransport (transportId t) \<in> fst (snd (removePeer socketId room c)))
       \<and> c \<subseteq> fst (snd (removePeer socketId room c))
       \<and> getPeer socketId (fst (removePeer socketId room c)) = None
       \<and> socketId \<notin> fst ` set (peers (fst (removePeer socketId room c)))
       \<and> (\<forall>s. s \<noteq> socketId
            \<longrightarrow> getPeer s (fst (removePeer socketId room c)) = getPeer s room)
       \<and> snd (snd (removePeer socketId room c)) = Some peer"
  using assms
  by (auto simp: removePeer_def getPeer_def Let_def closeProducers_eq closeConsumers_eq
        closeTransport_eq delete_conv' delete_notin_dom)

theorem removePeer_closes_and_deletes_witness:
  "HProducer ''p1'' \<in> fst (snd (removePeer ''s1''
      (ex_room [(ex_peer ''s1'' ''u1'' ''Ann'' Host)
                  \<lparr>sendTransport := Some ex_t1, producers := [(''p1'', ex_p1)]\<rparr>]) {}))
   \<and> HTransport ''t1'' \<in> fst (snd (removePeer ''s1''
      (ex_room [(ex_peer ''s1'' ''u1'' ''Ann'' Host)
                  \<lparr>sendTransport := Some ex_t1, producers := [(''p1'', ex_p1)]\<rparr>]) {}))
   \<and> getPeer ''s1'' (fst (removePeer ''s1''
      (ex_room [(ex_peer ''s1'' ''u1'' ''Ann'' Host)
                  \<lparr>sendTransport := Some ex_t1, producers := [(''p1'', ex_p1)]\<rparr>]) {})) = None"
proof -
  let ?p1 = "(ex_peer ''s1'' ''u1'' ''Ann'' Host)
               \<lparr>sendTransport := Some ex_t1, producers := [(''p1'', ex_p1)]\<rparr>"
  have h: "getPeer ''s1'' (ex_room [?p1]) = Some ?p1"
    by (simp add: getPeer_def ex_room_def ex_peer_def)
  show ?thesis
    using removePeer_closes_and_deletes [OF h, of "{}"]
    by (simp add: ex_peer_def ex_t1_def ex_p1_def)
qed

section \<open>Transports\<close>

lemma createTransport_cached:
  assumes "map_of (rooms w) roomId = Some room" and "getPeer sid room = Some peer"
    and "kind = Send \<longrightarrow> canPeerProduce sid room"
    and "kind = Recv \<longrightarrow> role peer \<noteq> Waiting"
    and "(if kind = Send then sendTransport peer else recvTransport peer) = Some t"
  shows "createTransport sid roomId kind newTransport w = (TransportParams t, w)"
  using assms by (cases kind) (simp_all add: createTransport_def)

lemma createTransport_success:
  assumes "createTransport sid roomId kind newTransport w = (TransportParams t, w1)"
  shows "\<exists>room peer. map_of (rooms w1) roomId = Some room \<and> getPeer sid room = Some peer
           \<and> (kind = Send \<longrightarrow> canPeerProduce sid room)
           \<and> (kind = Recv \<longrightarrow> role peer \<noteq> Waiting)
           \<and> (if kind = Send then sendTransport peer else recvTransport peer) = Some t"
proof -
  obtain room where r: "map_of (rooms w) roomId = Some room"
    using assms by (cases "map_of (rooms w) roomId") (simp_all add: createTransport_def)
  obtain peer where p: "getPeer sid room = Some peer"
    using assms r by (cases "getPeer sid room") (simp_all add: createTransport_def)
  show ?thesis
  proof (cases kind)
    case Send
    with assms r p have perm: "canPeerProduce sid room"
      by (auto simp: createTransport_def split: if_splits)
    show ?thesis
    proof (cases "sendTransport peer")
      case (Some t0)
      with assms r p Send perm have "t0 = t" "w1 = w"
        by (simp_all add: createTransport_def)
      with r p Send perm Some show ?thesis by auto
    next
      case None
      with assms r p Send perm have "newTransport = Some t"
        and "w1 = putRoom roomId (putPeer sid (peer\<lparr>sendTransport := Some t\<rparr>) room) w"
        by (auto simp: createTransport_def split: option.splits)
      moreover from perm p have "role peer = Producer \<or> role peer = Host"
        by (simp add: canPeerProduce_def getPeer_def)
      ultimately show ?thesis using Send
        by (simp add: map_of_putRoom getPeer_putPeer canPeerProduce_putPeer)
    qed
  next
    case Recv
    with assms r p have perm: "role peer \<noteq> Waiting"
      by (auto simp: createTransport_def split: if_splits)
    show ?thesis
    proof (cases "recvTransport peer")
      case (Some t0)
      with assms r p Recv perm have "t0 = t" "w1 = w"
        by (simp_all add: createTransport_def)
      with r p Recv perm Some show ?thesis by auto
    next
      case None
      with assms r p Recv perm have "newTransport = Some t"
        and "w1 = putRoom roomId (putPeer sid (peer\<lparr>recvTransport := Some t\<rparr>) room) w"
        by (auto simp: createTransport_def split: option.splits)
      then show ?thesis using Recv perm
        by (simp add: map_of_putRoom getPeer_putPeer)
    qed
  qed
qed

text \<open>
  C8, as stated: at most one send transport is ever created per peer, and two calls of
  \<open>createTransport(kind=send)\<close> by a peer return identical identifiers. Not across a
  demotion: \<open>s2\<close>, a producer, gets the send transport \<open>t1\<close>; the host demotes it, which
  closes and drops \<open>t1\<close>, and promotes it again; the next call creates and returns \<open>t2\<close>.
\<close>

theorem createTransport_after_demotion_counterexample:
  "createTransport ''s2'' ''r1'' Send (Some ex_t1)
      (ex_world [ex_peer ''s1'' ''u1'' ''Ann'' Host, ex_peer ''s2'' ''u2'' ''Bob'' Producer])
    = (TransportParams ex_t1,
       ex_world [ex_peer ''s1'' ''u1'' ''Ann'' Host,
                 (ex_peer ''s2'' ''u2'' ''Bob'' Producer)\<lparr>sendTransport := Some ex_t1\<rparr>])
   \<and> demoteToConsumer ''s1'' ''r1'' ''s2''
      (ex_world [ex_peer ''s1'' ''u1'' ''Ann'' Host,
                 (ex_peer ''s2'' ''u2'' ''Bob'' Producer)\<lparr>sendTransport := Some ex_t1\<rparr>])
    = (Demoted,
       (ex_world [ex_peer ''s1'' ''u1'' ''Ann'' Host, ex_peer ''s2'' ''u2'' ''Bob'' Consumer])
         \<lparr>closed := {HTransport ''t1''}\<rparr>)
   \<and> promoteToProducer ''s1'' ''r1'' ''s2''
      ((ex_world [ex_peer ''s1'' ''u1'' ''Ann'' Host, ex_peer ''s2'' ''u2'' ''Bob'' Consumer])
         \<lparr>closed := {HTransport ''t1''}\<rparr>)
    = (Promoted,
       (ex_world [ex_peer ''s1'' ''u1'' ''Ann'' Host, ex_peer ''s2'' ''u2'' ''Bob'' Producer])
         \<lparr>closed := {HTransport ''t1''}\<rparr>)
   \<and> fst (createTransport ''s2'' ''r1'' Send (Some ex_t2)
      ((ex_world [ex_peer ''s1'' ''u1'' ''Ann'' Host, ex_peer ''s2'' ''u2'' ''Bob'' Producer])
         \<lparr>closed := {HTransport ''t1''}\<rparr>))
    = TransportParams ex_t2
   \<and> transportId ex_t1 \<noteq> transportId ex_t2"
  by (simp add: createTransport_def demoteToConsumer_def promoteToProducer_def
        promotePeerToProducer_def demotePeerToConsumer_def isHost_def canPeerProduce_def
        getPeer_def putPeer_def putRoom_def closeTransport_def closeProducers_def Let_def ex_defs)

text \<open>
  C8, amended: \<open>createTransport\<close> is idempotent per peer and kind while the peer keeps
  its transport. A call that succeeds leaves the returned transport cached on the peer,
  and the same call made again on the resulting state returns the same transport,
  whatever the engine would hand out, and changes nothing: a peer holds at most one send
  and one receive transport at a time, and a repeated call creates no duplicate.
\<close>

theorem createTransport_idempotent:
  assumes "createTransport sid roomId kind newTransport w = (TransportParams t, w1)"
  shows "createTransport sid roomId kind newTransport' w1 = (TransportParams t, w1)
       \<and> (\<exists>peer. peerOf w1 roomId sid = Some peer
             \<and> (if kind = Send then sendTransport peer else recvTransport peer) = Some t)"
proof -
  from createTransport_success [OF assms] obtain room peer where h:
    "map_of (rooms w1) roomId = Some room" "getPeer sid room = Some peer"
    "kind = Send \<longrightarrow> canPeerProduce sid room" "kind = Recv \<longrightarrow> role peer \<noteq> Waiting"
    "(if kind = Send then sendTransport peer else recvTransport peer) = Some t"
    by blast
  then have "createTransport sid roomId kind newTransport' w1 = (TransportParams t, w1)"
    by (rule createTransport_cached)
  moreover from h have "peerOf w1 roomId sid = Some peer"
    by (simp add: peerOf_def)
  ultimately show ?thesis using h(5) by blast
qed

theorem createTransport_idempotent_witness:
  "createTransport ''s2'' ''r1'' Send (Some ex_t2)
      (ex_world [ex_peer ''s1'' ''u1'' ''Ann'' Host,
                 (ex_peer ''s2'' ''u2'' ''Bob'' Producer)\<lparr>sendTransport := Some ex_t1\<rparr>])
    = (TransportParams ex_t1,
       ex_world [ex_peer ''s1'' ''u1'' ''Ann'' Host,
                 (ex_peer ''s2'' ''u2'' ''Bob'' Producer)\<lparr>sendTransport := Some ex_t1\<rparr>])"
proof -
  have h: "createTransport ''s2'' ''r1'' Send (Some ex_t1)
      (ex_world [ex_peer ''s1'' ''u1'' ''Ann'' Host, ex_peer ''s2'' ''u2'' ''Bob'' Producer])
    = (TransportParams ex_t1,
       ex_world [ex_peer ''s1'' ''u1'' ''Ann'' Host,
                 (ex_peer ''s2'' ''u2'' ''Bob'' Producer)\<lparr>sendTransport := Some ex_t1\<rparr>])"
    by (simp add: createTransport_def canPeerProduce_def getPeer_def putPeer_def putRoom_def
          ex_defs)
  show ?thesis
    using createTransport_idempotent [OF h, of "Some ex_t2"] by simp
qed

text \<open>
  C2, at the failing input: \<open>s1\<close> is the host and publishes \<open>p1\<close>, \<open>s2\<close> is waiting. The
  three guarded requests of \<open>s2\<close> are denied, but its \<open>consume\<close> request for \<open>p1\<close> succeeds
  and leaves \<open>s2\<close>, still waiting, with the receive transport \<open>t2\<close> and the consumer \<open>c1\<close>.
\<close>

theorem consume_gives_waiting_peer_a_transport:
  "fst (createTransport ''s2'' ''r1'' Recv (Some ex_t2)
      (ex_world [(ex_peer ''s1'' ''u1'' ''Ann'' Host)
                   \<lparr>sendTransport := Some ex_t1, producers := [(''p1'', ex_p1)]\<rparr>,
                 ex_peer ''s2'' ''u2'' ''Bob'' Waiting]))
    = Error ''Permission denied: waiting for host approval.''
   \<and> fst (createTransport ''s2'' ''r1'' Send (Some ex_t2)
      (ex_world [(ex_peer ''s1'' ''u1'' ''Ann'' Host)
                   \<lparr>sendTransport := Some ex_t1, producers := [(''p1'', ex_p1)]\<rparr>,
                 ex_peer ''s2'' ''u2'' ''Bob'' Waiting]))
    = Error ''Permission denied: You do not have permission to produce media. Wait for host approval.''
   \<and> fst (produce ''s2'' ''r1'' ''t2'' Audio (Some ex_p1)
      (ex_world [(ex_peer ''s1'' ''u1'' ''Ann'' Host)
                   \<lparr>sendTransport := Some ex_t1, producers := [(''p1'', ex_p1)]\<rparr>,
                 ex_peer ''s2'' ''u2'' ''Bob'' Waiting]))
    = Error ''Permission denied: You do not have permission to produce media''
   \<and> consume ''s2'' ''r1'' ''p1'' (Some True) (Some ex_t2) (Some ex_c1)
      (ex_world [(ex_peer ''s1'' ''u1'' ''Ann'' Host)
                   \<lparr>sendTransport := Some ex_t1, producers := [(''p1'', ex_p1)]\<rparr>,
                 ex_peer ''s2'' ''u2'' ''Bob'' Waiting])
    = (Consumed ex_c1 ''p1'' ex_t2,
       ex_world [(ex_peer ''s1'' ''u1'' ''Ann'' Host)
                   \<lparr>sendTransport := Some ex_t1, producers := [(''p1'', ex_p1)]\<rparr>,
                 (ex_peer ''s2'' ''u2'' ''Bob'' Waiting)
                   \<lparr>recvTransport := Some ex_t2, consumers := [(''c1'', ex_c1)]\<rparr>])"
  by (simp add: consume_def createTransport_def produce_def canPeerProduce_def
        getPeer_def putPeer_def putRoom_def ex_defs)

section \<open>Role changes\<close>

text \<open>
  C3, at the failing input: \<open>s1\<close> is the host, \<open>s2\<close> is waiting and \<open>s3\<close> is a consumer.
  The host's \<open>demoteToConsumer\<close> for \<open>s2\<close> reports success and makes \<open>s2\<close> a consumer, a
  transition from waiting that is not \<open>approveJoin\<close>; for \<open>s3\<close>, which is no producer, it
  reports success too.
\<close>

theorem demoteToConsumer_of_waiting_peer:
  "demoteToConsumer ''s1'' ''r1'' ''s2''
      (ex_world [ex_peer ''s1'' ''u1'' ''Ann'' Host, ex_peer ''s2'' ''u2'' ''Bob'' Waiting,
                 ex_peer ''s3'' ''u3'' ''Cy'' Consumer])
    = (Demoted,
       ex_world [ex_peer ''s1'' ''u1'' ''Ann'' Host, ex_peer ''s2'' ''u2'' ''Bob'' Consumer,
                 ex_peer ''s3'' ''u3'' ''Cy'' Consumer])
   \<and> fst (demoteToConsumer ''s1'' ''r1'' ''s3''
      (ex_world [ex_peer ''s1'' ''u1'' ''Ann'' Host, ex_peer ''s2'' ''u2'' ''Bob'' Waiting,
                 ex_peer ''s3'' ''u3'' ''Cy'' Consumer]))
    = Demoted"
  by (simp add: demoteToConsumer_def isHost_def getPeer_def demotePeerToConsumer_def Let_def
        closeTransport_def closeProducers_def putRoom_def ex_defs)

section \<open>Joining\<close>

text \<open>
  C10: a join request without invite token is never checked against a token and never
  answered with the invalid-token error. It fails only when the room has to be created
  and the engine gives no router; otherwise the caller is admitted, as host when the room
  is new or has no peer, as waiting otherwise, and is registered with that role.
\<close>

theorem join_without_token:
  "\<not> tokenRejected now roomId None
   \<and> fst (join sid roomId uid dname caps None now newRouter w)
       \<noteq> Error ''Invalid or expired invite token''
   \<and> (map_of (rooms w) roomId = None \<and> newRouter = None
        \<longrightarrow> join sid roomId uid dname caps None now newRouter w = (Error ''Failed to join room'', w))
   \<and> (map_of (rooms w) roomId \<noteq> None \<or> newRouter \<noteq> None
        \<longrightarrow> (\<exists>c ps parts.
               fst (join sid roomId uid dname caps None now newRouter w)
                 = Joined c ps parts
                     (if (case map_of (rooms w) roomId of None \<Rightarrow> True
                          | Some room \<Rightarrow> getPeerCount room = 0) then Host else Waiting) sid)
            \<and> map_option role
                 (peerOf (snd (join sid roomId uid dname caps None now newRouter w)) roomId sid)
                 = Some (if (case map_of (rooms w) roomId of None \<Rightarrow> True
                             | Some room \<Rightarrow> getPeerCount room = 0) then Host else Waiting))"
proof -
  have a: "\<not> tokenRejected now roomId None" by (simp add: tokenRejected_def)
  show ?thesis
  proof (cases "map_of (rooms w) roomId")
    case None
    show ?thesis
    proof (cases newRouter)
      case N: None
      with None a show ?thesis by (simp add: join_def ensureRoom_def)
    next
      case (Some rt)
      with None a show ?thesis
        by (simp add: join_def ensureRoom_def Let_def createRoomSession_def addPeer_def
              getPeer_def getPeerCount_def putPeer_def peerOf_putRoom update_conv')
    qed
  next
    case (Some room)
    with a show ?thesis
      by (simp add: join_def ensureRoom_def Let_def addPeer_def
            getPeer_def getPeerCount_def putPeer_def peerOf_putRoom update_conv')
  qed
qed

theorem join_without_token_witness:
  "join ''s1'' ''r1'' ''u1'' ''Ann'' ''caps'' None 0 (Some ex_router) initial
     = (Joined ''caps'' [] [(''s1'', ''u1'', ''Ann'', Host)] Host ''s1'',
        ex_world [ex_peer ''s1'' ''u1'' ''Ann'' Host])
   \<and> fst (join ''s2'' ''r1'' ''u2'' ''Bob'' ''caps'' None 1000 None
           (ex_world [ex_peer ''s1'' ''u1'' ''Ann'' Host]))
     = Joined ''caps'' [] [(''s1'', ''u1'', ''Ann'', Host), (''s2'', ''u2'', ''Bob'', Waiting)]
         Waiting ''s2''
   \<and> join ''s1'' ''r1'' ''u1'' ''Ann'' ''caps'' None 0 None initial
     = (Error ''Failed to join room'', initial)"
  using join_without_token [of 0 "''r1''" "''s1''" "''u1''" "''Ann''" "''caps''" "Some ex_router" initial]
    join_without_token [of 1000 "''r1''" "''s2''" "''u2''" "''Bob''" "''caps''" None
      "ex_world [ex_peer ''s1'' ''u1'' ''Ann'' Host]"]
    join_without_token [of 0 "''r1''" "''s1''" "''u1''" "''Ann''" "''caps''" None initial]
  by (simp add: join_def tokenRejected_def ensureRoom_def initial_def createRoomSession_def
        Let_def addPeer_def getPeer_def getPeerCount_def putPeer_def putRoom_def
        getAllProducersForPeer_def getRtpCapabilities_def participantsOf_def ex_defs)

section \<open>Steps keep the registry well formed\<close>

lemma roleStepOk_refl [simp]: "roleStepOk r r"
  by (simp add: roleStepOk_def)

lemma putPeer_twice [simp]: "putPeer x p (putPeer x q room) = putPeer x p room"
  by (simp add: putPeer_def)

lemma putRoom_rooms: "rooms (putRoom rid room w) = AList.update rid room (rooms w)"
  by (simp add: putRoom_def)

lemma touches_putPeer:
  assumes "map_of (rooms w) rid = Some room" "getPeer x room = Some p"
    "roleStepOk (role p) (role p')"
  shows "touches w (putRoom rid (putPeer x p' room) w)"
  using assms by (auto intro: touches_peer simp: putRoom_rooms)

lemma touches_refl [simp]: "touches w w"
  by (simp add: touches_same)

lemma touches_closed [simp]: "touches w (w'\<lparr>closed := c\<rparr>) = touches w w'"
  by (auto elim!: touches.cases intro: touches_same touches_peer)

lemma putPeer_fields [simp]:
  "hostSocketId (putPeer x p room) = hostSocketId room"
  "peers (putPeer x p room) \<noteq> []"
  by (simp_all add: putPeer_def)

lemma roomOk_putPeer:
  assumes "roomOk room" "getPeer x room = Some p" "roleStepOk (role p) (role p')"
  shows "roomOk (putPeer x p' room)"
  using assms
  by (auto simp: roomOk_def getPeer_putPeer roleStepOk_def split: if_splits)

lemma wellFormed_touches:
  assumes "wellFormed w" "touches w w'"
  shows "wellFormed w'"
  using assms(2,1)
proof cases
  case touches_same
  with assms(1) show ?thesis by (simp add: wellFormed_def)
next
  case (touches_peer rid room x p p')
  with assms(1) have "roomOk room" by (auto simp: wellFormed_def)
  with touches_peer have "roomOk (putPeer x p' room)" by (auto intro: roomOk_putPeer)
  with touches_peer assms(1) show ?thesis
    by (auto simp: wellFormed_def distinct_update update_conv' split: if_splits)
qed

lemma roles_touches:
  assumes "touches w w'" "peerOf w' rid s = Some q'"
  shows "\<exists>q. peerOf w rid s = Some q \<and> roleStepOk (role q) (role q')"
  using assms
proof cases
  case touches_same
  with assms(2) show ?thesis by (auto simp: peerOf_def)
next
  case (touches_peer rid0 room x p p')
  with assms(2) show ?thesis
    by (auto simp: peerOf_def update_conv' getPeer_putPeer split: if_splits)
qed

lemma putRoom_same [simp]: "map_of (rooms w) rid = Some room \<Longrightarrow> putRoom rid room w = w"
  by (simp add: putRoom_def update_triv)

lemma promotePeerToProducer_eq:
  "promotePeerToProducer peerId room =
     (case getPeer peerId room of
        None \<Rightarrow> (False, room)
      | Some peer \<Rightarrow>
          if role peer = Consumer then (True, putPeer peerId (peer\<lparr>role := Producer\<rparr>) room)
          else (False, room))"
  by (simp add: promotePeerToProducer_def getPeer_def putPeer_def split: option.splits)

lemma approvePeerJoin_eq:
  "approvePeerJoin peerId room =
     (case getPeer peerId room of
        None \<Rightarrow> (False, room)
      | Some peer \<Rightarrow>
          if role peer = Waiting then (True, putPeer peerId (peer\<lparr>role := Consumer\<rparr>) room)
          else (False, room))"
  by (simp add: approvePeerJoin_def getPeer_def putPeer_def split: option.splits)

lemma touches_createTransport: "touches w (snd (createTransport sid roomId kind nt w))"
  by (auto simp: createTransport_def split: option.splits intro!: touches_putPeer)

lemma touches_connectTransport: "touches w (snd (connectTransport sid roomId tid ok w))"
  by (auto simp: connectTransport_def Let_def split: option.splits)

lemma touches_produce: "touches w (snd (produce sid roomId tid kind np w))"
  by (auto simp: produce_def split: option.splits intro!: touches_putPeer)

lemma touches_consume: "touches w (snd (consume sid roomId prodId cc nt nc w))"
  by (auto simp: consume_def split: option.splits bool.splits intro!: touches_putPeer)

lemma touches_resumeConsumer: "touches w (snd (resumeConsumer sid roomId consId w))"
  by (auto simp: resumeConsumer_def split: option.splits)

lemma touches_requestSpeakingPermission:
  "touches w (snd (requestSpeakingPermission sid roomId w))"
  by (auto simp: requestSpeakingPermission_def split: option.splits)

lemma touches_postRooms: "touches w (snd (postRooms now hostName baseUrl w))"
  by (simp add: postRooms_def Let_def split_beta touches_same)

lemma touches_promoteToProducer: "touches w (snd (promoteToProducer sid roomId peerId w))"
  by (auto simp: promoteToProducer_def promotePeerToProducer_eq roleStepOk_def
        split: option.splits intro!: touches_putPeer)

lemma touches_approveJoin: "touches w (snd (approveJoin sid roomId peerId promote w))"
  by (auto simp: approveJoin_def approvePeerJoin_eq promotePeerToProducer_eq getPeer_putPeer
        roleStepOk_def split: option.splits intro!: touches_putPeer)

lemma touches_demoteToConsumer: "touches w (snd (demoteToConsumer sid roomId peerId w))"
proof (cases "map_of (rooms w) roomId")
  case None
  then show ?thesis by (simp add: demoteToConsumer_def)
next
  case (Some room)
  show ?thesis
  proof (cases "getPeer peerId room")
    case None
    with Some show ?thesis by (simp add: demoteToConsumer_def)
  next
    case P: (Some peer)
    then have m: "map_of (peers room) peerId = Some peer" by (simp add: getPeer_def)
    show ?thesis
      using Some P
      by (auto simp: demoteToConsumer_def demotePeerToConsumer_Some [OF m] roleStepOk_def
            intro!: touches_putPeer)
  qed
qed

lemma join_rooms:
  "rooms (snd (join sid roomId uid dname caps tok now nr w)) =
     (if tokenRejected now roomId tok then rooms w
      else case map_of (rooms w) roomId of
             Some room \<Rightarrow>
               AList.update roomId
                 (putPeer sid (joinedPeer sid uid dname (if peers room = [] then Host else Waiting) caps)
                    room) (rooms w)
           | None \<Rightarrow>
               (case nr of
                  None \<Rightarrow> rooms w
                | Some rt \<Rightarrow>
                    AList.update roomId
                      (putPeer sid (joinedPeer sid uid dname Host caps)
                         \<lparr> room_id = roomId, router = rt, peers = [],
                           hostSocketId = sid, createdAt = now \<rparr>) (rooms w)))"
proof (cases "tokenRejected now roomId tok")
  case True
  then show ?thesis by (simp add: join_def)
next
  case False
  show ?thesis
  proof (cases "map_of (rooms w) roomId")
    case (Some room)
    with False show ?thesis
      by (simp add: join_def ensureRoom_def Let_def addPeer_def getPeer_def getPeerCount_def
            putPeer_def putRoom_def joinedPeer_def update_conv')
  next
    case None
    with False show ?thesis
      by (cases nr)
         (simp_all add: join_def ensureRoom_def Let_def addPeer_def getPeer_def getPeerCount_def
            putPeer_def putRoom_def joinedPeer_def createRoomSession_def update_conv')
  qed
qed

lemma wellFormed_update:
  assumes "wellFormed w" "roomOk room" "rooms w' = AList.update rid room (rooms w)"
  shows "wellFormed w'"
  using assms by (auto simp: wellFormed_def distinct_update update_conv' split: if_splits)

lemma roomOk_join_existing:
  assumes "roomOk room"
  shows "roomOk (putPeer sid (joinedPeer sid uid dname (if peers room = [] then Host else Waiting) caps) room)"
  using assms by (auto simp: roomOk_def getPeer_putPeer joinedPeer_def split: if_splits)

lemma getPeer_no_peers [simp]:
  "getPeer s \<lparr> room_id = roomId, router = rt, peers = [], hostSocketId = h, createdAt = now \<rparr> = None"
  by (simp add: getPeer_def)

lemma roomOk_join_new:
  "roomOk (putPeer sid (joinedPeer sid uid dname Host caps)
             \<lparr> room_id = roomId, router = rt, peers = [], hostSocketId = sid, createdAt = now \<rparr>)"
  by (auto simp: roomOk_def getPeer_putPeer joinedPeer_def split: if_splits)

lemma wellFormed_join:
  assumes "wellFormed w"
  shows "wellFormed (snd (join sid roomId uid dname caps tok now nr w))"
proof -
  let ?w' = "snd (join sid roomId uid dname caps tok now nr w)"
  note jr = join_rooms [of sid roomId uid dname caps tok now nr w]
  show ?thesis
  proof (cases "tokenRejected now roomId tok")
    case True
    with jr assms show ?thesis by (simp add: wellFormed_def)
  next
    case False
    show ?thesis
    proof (cases "map_of (rooms w) roomId")
      case (Some room)
      with assms have "roomOk room" by (auto simp: wellFormed_def)
      then have ok: "roomOk (putPeer sid
          (joinedPeer sid uid dname (if peers room = [] then Host else Waiting) caps) room)"
        by (rule roomOk_join_existing)
      from jr False Some have eq: "rooms ?w' = AList.update roomId (putPeer sid
          (joinedPeer sid uid dname (if peers room = [] then Host else Waiting) caps) room) (rooms w)"
        by simp
      show ?thesis by (rule wellFormed_update [OF assms ok eq])
    next
      case None
      show ?thesis
      proof (cases nr)
        case N: None
        with jr False None assms show ?thesis by (simp add: wellFormed_def)
      next
        case (Some rt)
        with jr False None have eq: "rooms ?w' = AList.update roomId
            (putPeer sid (joinedPeer sid uid dname Host caps)
               \<lparr> room_id = roomId, router = rt, peers = [],
                 hostSocketId = sid, createdAt = now \<rparr>) (rooms w)"
          by simp
        show ?thesis by (rule wellFormed_update [OF assms roomOk_join_new eq])
      qed
    qed
  qed
qed

lemma roles_join:
  assumes "wellFormed w"
    and "peerOf (snd (join sid roomId uid dname caps tok now nr w)) rid s = Some q'"
    and "peerOf w rid s = Some q"
  shows "role q' = role q \<or> (s = sid \<and> rid = roomId \<and> role q' = Waiting)"
proof -
  note jr = join_rooms [of sid roomId uid dname caps tok now nr w]
  show ?thesis
  proof (cases "tokenRejected now roomId tok")
    case True
    with jr assms show ?thesis by (simp add: peerOf_def)
  next
    case False
    show ?thesis
    proof (cases "map_of (rooms w) roomId")
      case (Some room)
      with assms(1) have "peers room \<noteq> []" by (auto simp: wellFormed_def roomOk_def)
      with jr False Some assms(2,3) show ?thesis
        by (auto simp: peerOf_def update_conv' getPeer_putPeer joinedPeer_def split: if_splits)
    next
      case None
      with jr False assms(2,3) show ?thesis
        by (cases nr) (auto simp: peerOf_def update_conv' split: if_splits)
    qed
  qed
qed

lemma close_room_empty:
  "peers room = [] \<Longrightarrow> close_room room c = (room, insert (HRouter (routerId (router room))) c)"
  by (simp add: close_room_def)

lemma removePeer_Some:
  assumes "getPeer sid room = Some peer"
  shows "removePeer sid room c =
     (room\<lparr>peers := AList.delete sid (peers room)\<rparr>,
      c \<union> (\<lambda>p. HProducer (producerId p)) ` snd ` set (producers peer)
        \<union> (\<lambda>p. HConsumer (consumerId p)) ` snd ` set (consumers peer)
        \<union> (\<lambda>tr. HTransport (transportId tr)) ` set_option (sendTransport peer)
        \<union> (\<lambda>tr. HTransport (transportId tr)) ` set_option (recvTransport peer),
      Some peer)"
  using assms
  by (simp add: removePeer_def getPeer_def Let_def closeProducers_eq closeConsumers_eq
        closeTransport_eq)

lemma disconnect_room_eq:
  "disconnect_room sid rid room w =
     (case getPeer sid room of
        None \<Rightarrow> w
      | Some peer \<Rightarrow>
          if AList.delete sid (peers room) = []
          then w\<lparr> rooms := AList.delete rid (rooms w),
                  inviteManager := AList.delete rid (inviteManager w),
                  closed := insert (HRouter (routerId (router room))) (closed w \<union> handlesOf peer) \<rparr>
          else w\<lparr> rooms := AList.update rid (room\<lparr>peers := AList.delete sid (peers room)\<rparr>) (rooms w),
                  closed := closed w \<union> handlesOf peer \<rparr>)"
proof (cases "getPeer sid room")
  case None
  then show ?thesis by (simp add: disconnect_room_def)
next
  case (Some peer)
  show ?thesis
  proof (cases "AList.delete sid (peers room) = []")
    case True
    with Some show ?thesis
      by (simp add: disconnect_room_def Let_def removePeer_Some isEmpty_def close_room_empty
            removeRoomSession_def closeProducers_eq closeConsumers_eq closeTransport_eq
            handlesOf_def Un_ac)
  next
    case False
    with Some show ?thesis
      by (simp add: disconnect_room_def Let_def removePeer_Some isEmpty_def putRoom_def
            closeProducers_eq closeConsumers_eq closeTransport_eq handlesOf_def Un_ac)
  qed
qed

lemma disconnect_fold_distinct:
  "distinct (map fst (rooms w)) \<Longrightarrow>
   distinct (map fst (rooms (fold (\<lambda>(roomId, room) w'. disconnect_room sid roomId room w') rs w)))"
proof (induction rs arbitrary: w)
  case Nil
  then show ?case by simp
next
  case (Cons a rs)
  obtain k r where a: "a = (k, r)" by (cases a)
  from Cons.prems have "distinct (map fst (rooms (disconnect_room sid k r w)))"
    by (simp add: disconnect_room_eq distinct_update distinct_delete split: option.splits)
  from Cons.IH [OF this] a show ?case by simp
qed

lemma disconnect_fold_lookup:
  "distinct (map fst rs) \<Longrightarrow>
   map_of (rooms (fold (\<lambda>(roomId, room) w'. disconnect_room sid roomId room w') rs w)) rid =
     (case map_of rs rid of
        None \<Rightarrow> map_of (rooms w) rid
      | Some room \<Rightarrow>
          (case getPeer sid room of
             None \<Rightarrow> map_of (rooms w) rid
           | Some peer \<Rightarrow>
               if AList.delete sid (peers room) = [] then None
               else Some (room\<lparr>peers := AList.delete sid (peers room)\<rparr>)))"
proof (induction rs arbitrary: w)
  case Nil
  then show ?case by simp
next
  case (Cons a rs)
  obtain k r where a: "a = (k, r)" by (cases a)
  from Cons.prems a have d: "distinct (map fst rs)" and k: "map_of rs k = None"
    by (auto simp: map_of_eq_None_iff)
  show ?case
  proof (cases "rid = k")
    case True
    with Cons.IH [OF d, of "disconnect_room sid k r w"] a k show ?thesis
      by (simp add: disconnect_room_eq update_conv' delete_conv' split: option.splits)
  next
    case False
    with Cons.IH [OF d, of "disconnect_room sid k r w"] a show ?thesis
      by (simp add: disconnect_room_eq update_conv' delete_conv' split: option.splits)
  qed
qed

lemma disconnect_lookup:
  assumes "distinct (map fst (rooms w))"
  shows "map_of (rooms (disconnect sid w)) rid =
     (case map_of (rooms w) rid of
        None \<Rightarrow> None
      | Some room \<Rightarrow>
          (case getPeer sid room of
             None \<Rightarrow> Some room
           | Some peer \<Rightarrow>
               if AList.delete sid (peers room) = [] then None
               else Some (room\<lparr>peers := AList.delete sid (peers room)\<rparr>)))"
  unfolding disconnect_def disconnect_fold_lookup [OF assms]
  by (simp split: option.splits)

lemma getPeer_delete:
  "getPeer s (room\<lparr>peers := AList.delete sid (peers room)\<rparr>) =
     (if s = sid then None else getPeer s room)"
  by (simp add: getPeer_def delete_conv')

lemma wellFormed_disconnect:
  assumes "wellFormed w"
  shows "wellFormed (disconnect sid w)"
proof -
  from assms have d: "distinct (map fst (rooms w))" by (simp add: wellFormed_def)
  have "distinct (map fst (rooms (disconnect sid w)))"
    unfolding disconnect_def by (rule disconnect_fold_distinct [OF d])
  moreover have "roomOk room'" if "map_of (rooms (disconnect sid w)) rid = Some room'" for rid room'
  proof -
    from that obtain room where r: "map_of (rooms w) rid = Some room"
      and c: "room' = room \<or> (AList.delete sid (peers room) \<noteq> []
                \<and> room' = room\<lparr>peers := AList.delete sid (peers room)\<rparr>)"
      by (auto simp: disconnect_lookup [OF d] split: option.splits if_splits)
    from assms r have ok: "roomOk room" by (auto simp: wellFormed_def)
    from c ok show ?thesis
      by (auto simp: roomOk_def getPeer_delete split: if_splits)
  qed
  ultimately show ?thesis by (auto simp: wellFormed_def)
qed

lemma roles_disconnect:
  assumes "wellFormed w" and "peerOf (disconnect sid w) rid s = Some q'"
  shows "peerOf w rid s = Some q'"
proof -
  from assms(1) have d: "distinct (map fst (rooms w))" by (simp add: wellFormed_def)
  from assms(2) show ?thesis
    by (auto simp: peerOf_def disconnect_lookup [OF d] getPeer_delete split: option.splits if_splits)
qed

lemma touches_createTransport_resumed:
  "touches w (snd (createTransport_resumed sid roomId kind t w))"
  by (auto simp: createTransport_resumed_def split: option.splits intro!: touches_putPeer)

lemma touches_produce_resumed: "touches w (snd (produce_resumed sid roomId producer w))"
  by (auto simp: produce_resumed_def split: option.splits intro!: touches_putPeer)

lemma touches_consume_transport_resumed: "touches w (consume_transport_resumed sid roomId t w)"
  by (auto simp: consume_transport_resumed_def split: option.splits intro!: touches_putPeer)

lemma touches_consume_resumed:
  "touches w (snd (consume_resumed sid roomId prodId transport consumer w))"
  by (auto simp: consume_resumed_def split: option.splits intro!: touches_putPeer)

lemma join_resumed_rooms:
  "rooms (snd (join_resumed sid roomId uid dname caps now (Some rt) w)) =
     AList.update roomId
       (putPeer sid (joinedPeer sid uid dname Host caps)
          \<lparr> room_id = roomId, router = rt, peers = [],
            hostSocketId = sid, createdAt = now \<rparr>) (rooms w)"
  by (simp add: join_resumed_def Let_def addPeer_def getPeer_def getPeerCount_def
        putPeer_def putRoom_def joinedPeer_def createRoomSession_def update_conv')

lemma join_resumed_failed:
  "join_resumed sid roomId uid dname caps now None w = (Error ''Failed to join room'', w)"
  by (simp add: join_resumed_def)

lemma join_unsuspended:
  assumes "map_of (rooms w) roomId = None" and "\<not> tokenRejected now roomId tok"
  shows "join sid roomId uid dname caps tok now newRouter w
           = join_resumed sid roomId uid dname caps now newRouter w"
  using assms
  by (cases newRouter)
     (simp_all add: join_def join_resumed_def ensureRoom_def Let_def split_beta
        getPeerCount_def createRoomSession_def addPeer_def getPeer_def update_conv')

lemma wellFormed_join_resumed:
  assumes "wellFormed w"
  shows "wellFormed (snd (join_resumed sid roomId uid dname caps now nr w))"
proof (cases nr)
  case None
  with assms show ?thesis by (simp add: join_resumed_failed)
next
  case (Some rt)
  show ?thesis
    unfolding Some
    by (rule wellFormed_update [OF assms roomOk_join_new join_resumed_rooms])
qed

lemma roles_join_resumed:
  assumes "peerOf (snd (join_resumed sid roomId uid dname caps now nr w)) rid s = Some q'"
    and "peerOf w rid s = Some q"
  shows "role q' = role q \<or> (s = sid \<and> rid = roomId \<and> role q' = Host)"
proof (cases nr)
  case None
  with assms show ?thesis by (simp add: join_resumed_failed)
next
  case (Some rt)
  with assms show ?thesis
    by (auto simp: peerOf_def join_resumed_rooms update_conv' getPeer_putPeer joinedPeer_def
          split: if_splits)
qed

lemma touches_step:
  assumes "\<forall>sid roomId uid dname caps tok now nr. e \<noteq> EJoin sid roomId uid dname caps tok now nr"
    and "\<forall>sid. e \<noteq> EDisconnect sid"
    and "\<forall>sid roomId uid dname caps now nr. e \<noteq> EJoinResumed sid roomId uid dname caps now nr"
  shows "touches w (step e w)"
  using assms
  by (cases e)
     (simp_all add: touches_createTransport touches_connectTransport touches_produce
        touches_consume touches_resumeConsumer touches_promoteToProducer touches_approveJoin
        touches_demoteToConsumer touches_requestSpeakingPermission touches_postRooms
        touches_createTransport_resumed touches_produce_resumed
        touches_consume_transport_resumed touches_consume_resumed)

lemma wellFormed_step:
  assumes "wellFormed w"
  shows "wellFormed (step e w)"
proof (cases e)
  case (EJoin sid roomId uid dname caps tok now nr)
  with assms show ?thesis by (simp add: wellFormed_join)
next
  case (EDisconnect sid)
  with assms show ?thesis by (simp add: wellFormed_disconnect)
next
  case (EJoinResumed sid roomId uid dname caps now nr)
  with assms show ?thesis by (simp add: wellFormed_join_resumed)
qed (simp_all add: wellFormed_touches [OF assms] touches_createTransport
       touches_connectTransport touches_produce touches_consume touches_resumeConsumer
       touches_promoteToProducer touches_approveJoin touches_demoteToConsumer
       touches_requestSpeakingPermission touches_postRooms
       touches_createTransport_resumed touches_produce_resumed
       touches_consume_transport_resumed touches_consume_resumed)

lemma wellFormed_initial: "wellFormed initial"
  by (simp add: wellFormed_def initial_def)

lemma wellFormed_reachable: "reachable w \<Longrightarrow> wellFormed w"
  by (induction rule: reachable.induct) (simp_all add: wellFormed_initial wellFormed_step)

lemma roles_step:
  assumes "wellFormed w"
    and "peerOf (step e w) rid s = Some q'"
    and "peerOf w rid s = Some q"
  shows "roleStepOk (role q) (role q') \<or> (rejoins e s rid \<and> role q' = Waiting)
       \<or> (resumesJoin e s rid \<and> role q' = Host)"
proof (cases e)
  case (EJoin sid roomId uid dname caps tok now nr)
  with roles_join [OF assms(1), of sid roomId uid dname caps tok now nr rid s q' q] assms(2,3)
  show ?thesis by (auto simp: roleStepOk_def)
next
  case (EDisconnect sid)
  with roles_disconnect [OF assms(1), of sid rid s q'] assms(2,3)
  show ?thesis by simp
next
  case (ECreateTransport x1 x2 x3 x4)
  then have "touches w (step e w)" by (intro touches_step) simp_all
  from roles_touches [OF this assms(2)] assms(3) show ?thesis by simp
next
  case (EConnectTransport x1 x2 x3 x4)
  then have "touches w (step e w)" by (intro touches_step) simp_all
  from roles_touches [OF this assms(2)] assms(3) show ?thesis by simp
next
  case (EProduce x1 x2 x3 x4 x5)
  then have "touches w (step e w)" by (intro touches_step) simp_all
  from roles_touches [OF this assms(2)] assms(3) show ?thesis by simp
next
  case (EConsume x1 x2 x3 x4 x5 x6)
  then have "touches w (step e w)" by (intro touches_step) simp_all
  from roles_touches [OF this assms(2)] assms(3) show ?thesis by simp
next
  case (EResumeConsumer x1 x2 x3)
  then have "touches w (step e w)" by (intro touches_step) simp_all
  from roles_touches [OF this assms(2)] assms(3) show ?thesis by simp
next
  case (EPromoteToProducer x1 x2 x3)
  then have "touches w (step e w)" by (intro touches_step) simp_all
  from roles_touches [OF this assms(2)] assms(3) show ?thesis by simp
next
  case (EApproveJoin x1 x2 x3 x4)
  then have "touches w (step e w)" by (intro touches_step) simp_all
  from roles_touches [OF this assms(2)] assms(3) show ?thesis by simp
next
  case (EDemoteToConsumer x1 x2 x3)
  then have "touches w (step e w)" by (intro touches_step) simp_all
  from roles_touches [OF this assms(2)] assms(3) show ?thesis by simp
next
  case (ERequestSpeakingPermission x1 x2)
  then have "touches w (step e w)" by (intro touches_step) simp_all
  from roles_touches [OF this assms(2)] assms(3) show ?thesis by simp
next
  case (EPostRooms x1 x2 x3)
  then have "touches w (step e w)" by (intro touches_step) simp_all
  from roles_touches [OF this assms(2)] assms(3) show ?thesis by simp
next
  case (EJoinResumed sid roomId uid dname caps now nr)
  with roles_join_resumed [of sid roomId uid dname caps now nr w rid s q' q] assms(2,3)
  show ?thesis by (auto simp: roleStepOk_def)
next
  case (ECreateTransportResumed x1 x2 x3 x4)
  then have "touches w (step e w)" by (intro touches_step) simp_all
  from roles_touches [OF this assms(2)] assms(3) show ?thesis by simp
next
  case (EProduceResumed x1 x2 x3)
  then have "touches w (step e w)" by (intro touches_step) simp_all
  from roles_touches [OF this assms(2)] assms(3) show ?thesis by simp
next
  case (EConsumeTransportResumed x1 x2 x3)
  then have "touches w (step e w)" by (intro touches_step) simp_all
  from roles_touches [OF this assms(2)] assms(3) show ?thesis by simp
next
  case (EConsumeResumed x1 x2 x3 x4 x5)
  then have "touches w (step e w)" by (intro touches_step) simp_all
  from roles_touches [OF this assms(2)] assms(3) show ?thesis by simp
qed

lemma join_role:
  assumes "fst (join sid roomId uid dname caps tok now nr w) = Joined c ps parts r s'"
  shows "r = (if (case map_of (rooms w) roomId of None \<Rightarrow> True
                  | Some room \<Rightarrow> getPeerCount room = 0) then Host else Waiting)
       \<and> s' = sid
       \<and> map_option role (peerOf (snd (join sid roomId uid dname caps tok now nr w)) roomId sid) = Some r"
proof (cases "tokenRejected now roomId tok")
  case True
  with assms show ?thesis by (simp add: join_def)
next
  case False
  show ?thesis
  proof (cases "map_of (rooms w) roomId")
    case (Some room)
    with False assms show ?thesis
      by (auto simp: join_def ensureRoom_def Let_def addPeer_def getPeer_def getPeerCount_def
            putPeer_def peerOf_putRoom update_conv' split: if_splits)
  next
    case None
    with False assms show ?thesis
      by (cases nr)
         (auto simp: join_def ensureRoom_def Let_def addPeer_def getPeer_def getPeerCount_def
            putPeer_def peerOf_putRoom update_conv' createRoomSession_def split: if_splits)
  qed
qed


section \<open>The host role\<close>

lemma ex_step_join1:
  "step (EJoin ''s1'' ''r1'' ''u1'' ''Ann'' ''caps'' None 0 (Some ex_router)) initial
     = ex_world [ex_peer ''s1'' ''u1'' ''Ann'' Host]"
  by (simp add: join_def tokenRejected_def ensureRoom_def initial_def createRoomSession_def
        Let_def addPeer_def getPeer_def getPeerCount_def putPeer_def putRoom_def ex_defs)

lemma ex_step_join2:
  "step (EJoin ''s2'' ''r1'' ''u2'' ''Bob'' ''caps'' None 1000 None)
        (ex_world [ex_peer ''s1'' ''u1'' ''Ann'' Host])
     = ex_world [ex_peer ''s1'' ''u1'' ''Ann'' Host, ex_peer ''s2'' ''u2'' ''Bob'' Waiting]"
  by (simp add: join_def tokenRejected_def ensureRoom_def createRoomSession_def
        Let_def addPeer_def getPeer_def getPeerCount_def putPeer_def putRoom_def ex_defs)

lemma ex_reachable1: "reachable (ex_world [ex_peer ''s1'' ''u1'' ''Ann'' Host])"
  using reachable_step [OF reachable_initial,
    of "EJoin ''s1'' ''r1'' ''u1'' ''Ann'' ''caps'' None 0 (Some ex_router)"]
  by (simp only: ex_step_join1)

lemma ex_reachable2:
  "reachable (ex_world [ex_peer ''s1'' ''u1'' ''Ann'' Host, ex_peer ''s2'' ''u2'' ''Bob'' Waiting])"
  using reachable_step [OF ex_reachable1, of "EJoin ''s2'' ''r1'' ''u2'' ''Bob'' ''caps'' None 1000 None"]
  by (simp only: ex_step_join2)


text \<open>
  C1, as stated: no operation ever transitions a peer out of host. A second \<open>join\<close> of
  the host's own connection does: in the reachable state where \<open>s1\<close> is host of \<open>r1\<close> and
  \<open>s2\<close> waits, \<open>s1\<close> joins \<open>r1\<close> again, the room is not empty, and the entry of \<open>s1\<close> is
  replaced by a waiting peer. \<open>Room.demotePeerToConsumer\<close>, one of the operations of
  the role state machine, also turns a host into a consumer when called on one; it is
  the \<open>demoteToConsumer\<close> handler that refuses a host target.
\<close>

theorem host_rejoin_counterexample:
  "reachable (ex_world [ex_peer ''s1'' ''u1'' ''Ann'' Host, ex_peer ''s2'' ''u2'' ''Bob'' Waiting])
   \<and> join ''s1'' ''r1'' ''u1'' ''Ann'' ''caps'' None 2000 None
       (ex_world [ex_peer ''s1'' ''u1'' ''Ann'' Host, ex_peer ''s2'' ''u2'' ''Bob'' Waiting])
     = (Joined ''caps'' [] [(''s1'', ''u1'', ''Ann'', Waiting), (''s2'', ''u2'', ''Bob'', Waiting)]
          Waiting ''s1'',
        ex_world [ex_peer ''s1'' ''u1'' ''Ann'' Waiting, ex_peer ''s2'' ''u2'' ''Bob'' Waiting])
   \<and> map_option role (getPeer ''s1'' (fst (demotePeerToConsumer ''s1''
        (ex_room [ex_peer ''s1'' ''u1'' ''Ann'' Host, ex_peer ''s2'' ''u2'' ''Bob'' Waiting]) {})))
     = Some Consumer"
  using ex_reachable2
  by (simp add: join_def tokenRejected_def ensureRoom_def createRoomSession_def
        Let_def addPeer_def getPeer_def getPeerCount_def putPeer_def putRoom_def
        getAllProducersForPeer_def getRtpCapabilities_def participantsOf_def
        demotePeerToConsumer_def closeTransport_def closeProducers_def ex_defs)

text \<open>
  The slip the amended statement leaves out: two joins of the unregistered room \<open>r1\<close>
  overlap. Both found no room and wait for a router. When \<open>s1\<close> gets its router it
  registers its room and is answered host; when \<open>s2\<close> gets its router it registers its
  own room in place of that one and is answered host too, and \<open>s1\<close> is a peer of no
  registered room any more.
\<close>

lemma overlapping_joins_both_host:
  "join_resumed ''s1'' ''r1'' ''u1'' ''Ann'' ''caps'' 0 (Some ex_router) initial
     = (Joined ''caps'' [] [(''s1'', ''u1'', ''Ann'', Host)] Host ''s1'',
        ex_world [ex_peer ''s1'' ''u1'' ''Ann'' Host])
   \<and> fst (join_resumed ''s2'' ''r1'' ''u2'' ''Bob'' ''caps'' 1000 (Some ex_router)
           (ex_world [ex_peer ''s1'' ''u1'' ''Ann'' Host]))
     = Joined ''caps'' [] [(''s2'', ''u2'', ''Bob'', Host)] Host ''s2''
   \<and> peerOf (snd (join_resumed ''s2'' ''r1'' ''u2'' ''Bob'' ''caps'' 1000 (Some ex_router)
           (ex_world [ex_peer ''s1'' ''u1'' ''Ann'' Host]))) ''r1'' ''s1'' = None
   \<and> map_option role
        (peerOf (snd (join_resumed ''s2'' ''r1'' ''u2'' ''Bob'' ''caps'' 1000 (Some ex_router)
           (ex_world [ex_peer ''s1'' ''u1'' ''Ann'' Host]))) ''r1'' ''s2'') = Some Host"
  by (simp add: join_resumed_def initial_def createRoomSession_def
        Let_def addPeer_def getPeer_def getPeerCount_def putPeer_def putRoom_def peerOf_def
        getAllProducersForPeer_def getRtpCapabilities_def participantsOf_def ex_defs)

text \<open>
  C1, amended: in every state the server can reach, overlapping requests included, a
  peer in role host in a registered room is the connection recorded when that room was
  created, so a registered room has at most one host, its first peer. A join that finds
  its room registered assigns host exactly when it observes a peer count of 0 and
  waiting otherwise. A join that found no room and still finds none when its router
  arrives registers the room with itself as creator, as only peer and as host, and is
  answered host. No operation other than the second part of a suspended join turns a
  peer that is not host into host. No operation other than a join of the host's own
  connection into the same room changes the role of a host that stays in the room. What
  a suspended join does when another join has registered the room meanwhile is no part
  of the statement.
\<close>

theorem host_role_fixed:
  assumes "reachable w"
  shows "(\<forall>rid room s p. map_of (rooms w) rid = Some room \<and> getPeer s room = Some p
            \<and> role p = Host \<longrightarrow> s = hostSocketId room)
       \<and> (\<forall>rid s1 p1 s2 p2. peerOf w rid s1 = Some p1 \<and> role p1 = Host
            \<and> peerOf w rid s2 = Some p2 \<and> role p2 = Host \<longrightarrow> s1 = s2)
       \<and> (\<forall>sid roomId uid dname caps tok now nr room c ps parts r s'.
            map_of (rooms w) roomId = Some room
            \<and> fst (join sid roomId uid dname caps tok now nr w) = Joined c ps parts r s'
            \<longrightarrow> r = (if getPeerCount room = 0 then Host else Waiting)
              \<and> map_option role
                   (peerOf (snd (join sid roomId uid dname caps tok now nr w)) roomId sid) = Some r)
       \<and> (\<forall>e rid s q q'. peerOf w rid s = Some q \<and> role q \<noteq> Host \<and> \<not> resumesJoin e s rid
            \<and> peerOf (step e w) rid s = Some q' \<longrightarrow> role q' \<noteq> Host)
       \<and> (\<forall>e rid s q q'. peerOf w rid s = Some q \<and> role q = Host \<and> \<not> rejoins e s rid
            \<and> peerOf (step e w) rid s = Some q' \<longrightarrow> role q' = Host)
       \<and> (\<forall>sid roomId uid dname caps now rt.
            map_of (rooms w) roomId = None
            \<longrightarrow> fst (join_resumed sid roomId uid dname caps now (Some rt) w)
                  = Joined (rtpCapabilitiesOf rt) [] [(sid, uid, dname, Host)] Host sid
              \<and> (\<exists>room.
                  map_of (rooms (snd (join_resumed sid roomId uid dname caps now (Some rt) w))) roomId
                    = Some room
                \<and> hostSocketId room = sid
                \<and> map fst (peers room) = [sid]
                \<and> map_option role (getPeer sid room) = Some Host))"
proof -
  from assms have wf: "wellFormed w" by (rule wellFormed_reachable)
  have a: "\<forall>rid room s p. map_of (rooms w) rid = Some room \<and> getPeer s room = Some p
            \<and> role p = Host \<longrightarrow> s = hostSocketId room"
    using wf by (auto simp: wellFormed_def roomOk_def)
  have b: "\<forall>rid s1 p1 s2 p2. peerOf w rid s1 = Some p1 \<and> role p1 = Host
            \<and> peerOf w rid s2 = Some p2 \<and> role p2 = Host \<longrightarrow> s1 = s2"
  proof (intro allI impI)
    fix rid s1 p1 s2 p2
    assume h: "peerOf w rid s1 = Some p1 \<and> role p1 = Host
            \<and> peerOf w rid s2 = Some p2 \<and> role p2 = Host"
    then obtain room where r: "map_of (rooms w) rid = Some room"
      by (cases "map_of (rooms w) rid") (simp_all add: peerOf_def)
    with h have "getPeer s1 room = Some p1" "getPeer s2 room = Some p2"
      by (simp_all add: peerOf_def)
    with a r h have "s1 = hostSocketId room" "s2 = hostSocketId room" by blast+
    then show "s1 = s2" by simp
  qed
  have c: "\<forall>sid roomId uid dname caps tok now nr room c ps parts r s'.
            map_of (rooms w) roomId = Some room
            \<and> fst (join sid roomId uid dname caps tok now nr w) = Joined c ps parts r s'
            \<longrightarrow> r = (if getPeerCount room = 0 then Host else Waiting)
              \<and> map_option role
                   (peerOf (snd (join sid roomId uid dname caps tok now nr w)) roomId sid) = Some r"
  proof (intro allI impI)
    fix sid roomId uid dname caps tok now nr room c ps parts r s'
    assume h: "map_of (rooms w) roomId = Some room
            \<and> fst (join sid roomId uid dname caps tok now nr w) = Joined c ps parts r s'"
    from join_role [of sid roomId uid dname caps tok now nr w c ps parts r s'] h
    show "r = (if getPeerCount room = 0 then Host else Waiting)
              \<and> map_option role
                   (peerOf (snd (join sid roomId uid dname caps tok now nr w)) roomId sid) = Some r"
      by (cases "getPeerCount room = 0") auto
  qed
  have d: "\<forall>e rid s q q'. peerOf w rid s = Some q \<and> role q \<noteq> Host \<and> \<not> resumesJoin e s rid
            \<and> peerOf (step e w) rid s = Some q' \<longrightarrow> role q' \<noteq> Host"
    using roles_step [OF wf] by (fastforce simp: roleStepOk_def)
  have e: "\<forall>e rid s q q'. peerOf w rid s = Some q \<and> role q = Host \<and> \<not> rejoins e s rid
            \<and> peerOf (step e w) rid s = Some q' \<longrightarrow> role q' = Host"
    using roles_step [OF wf] by (fastforce simp: roleStepOk_def)
  have f1: "fst (join_resumed sid roomId uid dname caps now (Some rt) w)
              = Joined (rtpCapabilitiesOf rt) [] [(sid, uid, dname, Host)] Host sid"
    for sid roomId uid dname caps now rt
    by (simp add: join_resumed_def Let_def addPeer_def getPeer_def getPeerCount_def
          putPeer_def createRoomSession_def update_conv' getAllProducersForPeer_def
          getRtpCapabilities_def participantsOf_def)
  have f2: "\<exists>room.
              map_of (rooms (snd (join_resumed sid roomId uid dname caps now (Some rt) w))) roomId
                = Some room
              \<and> hostSocketId room = sid
              \<and> map fst (peers room) = [sid]
              \<and> map_option role (getPeer sid room) = Some Host"
    for sid roomId uid dname caps now rt
    by (simp add: join_resumed_rooms update_conv' getPeer_putPeer joinedPeer_def)
       (simp add: putPeer_def)
  from f1 f2 have f: "\<forall>sid roomId uid dname caps now rt.
            map_of (rooms w) roomId = None
            \<longrightarrow> fst (join_resumed sid roomId uid dname caps now (Some rt) w)
                  = Joined (rtpCapabilitiesOf rt) [] [(sid, uid, dname, Host)] Host sid
              \<and> (\<exists>room.
                  map_of (rooms (snd (join_resumed sid roomId uid dname caps now (Some rt) w))) roomId
                    = Some room
                \<and> hostSocketId room = sid
                \<and> map fst (peers room) = [sid]
                \<and> map_option role (getPeer sid room) = Some Host)"
    by blast
  from a b c d e f show ?thesis by blast
qed

theorem host_role_fixed_witness:
  "reachable (ex_world [ex_peer ''s1'' ''u1'' ''Ann'' Host, ex_peer ''s2'' ''u2'' ''Bob'' Waiting])
   \<and> peerOf (ex_world [ex_peer ''s1'' ''u1'' ''Ann'' Host, ex_peer ''s2'' ''u2'' ''Bob'' Waiting])
        ''r1'' ''s2'' = Some (ex_peer ''s2'' ''u2'' ''Bob'' Waiting)
   \<and> peerOf (step (EApproveJoin ''s1'' ''r1'' ''s2'' True)
        (ex_world [ex_peer ''s1'' ''u1'' ''Ann'' Host, ex_peer ''s2'' ''u2'' ''Bob'' Waiting]))
        ''r1'' ''s2'' = Some (ex_peer ''s2'' ''u2'' ''Bob'' Producer)
   \<and> role (ex_peer ''s2'' ''u2'' ''Bob'' Producer) \<noteq> Host
   \<and> peerOf (step (EDemoteToConsumer ''s1'' ''r1'' ''s1'')
        (ex_world [ex_peer ''s1'' ''u1'' ''Ann'' Host, ex_peer ''s2'' ''u2'' ''Bob'' Waiting]))
        ''r1'' ''s1'' = Some (ex_peer ''s1'' ''u1'' ''Ann'' Host)
   \<and> role (ex_peer ''s1'' ''u1'' ''Ann'' Host) = Host"
proof -
  let ?w = "ex_world [ex_peer ''s1'' ''u1'' ''Ann'' Host, ex_peer ''s2'' ''u2'' ''Bob'' Waiting]"
  have p1: "peerOf ?w ''r1'' ''s1'' = Some (ex_peer ''s1'' ''u1'' ''Ann'' Host)"
    and p2: "peerOf ?w ''r1'' ''s2'' = Some (ex_peer ''s2'' ''u2'' ''Bob'' Waiting)"
    by (simp_all add: peerOf_def getPeer_def ex_world_def ex_room_def ex_peer_def)
  have a: "peerOf (step (EApproveJoin ''s1'' ''r1'' ''s2'' True) ?w) ''r1'' ''s2''
             = Some (ex_peer ''s2'' ''u2'' ''Bob'' Producer)"
    by (simp add: approveJoin_def approvePeerJoin_def promotePeerToProducer_def isHost_def
          getPeer_def putRoom_def peerOf_def ex_world_def ex_room_def ex_peer_def)
  have d: "peerOf (step (EDemoteToConsumer ''s1'' ''r1'' ''s1'') ?w) ''r1'' ''s1''
             = Some (ex_peer ''s1'' ''u1'' ''Ann'' Host)"
    by (simp add: demoteToConsumer_def isHost_def
          getPeer_def peerOf_def ex_world_def ex_room_def ex_peer_def)
  have h2: "peerOf ?w ''r1'' ''s2'' = Some (ex_peer ''s2'' ''u2'' ''Bob'' Waiting)
          \<and> role (ex_peer ''s2'' ''u2'' ''Bob'' Waiting) \<noteq> Host
          \<and> \<not> resumesJoin (EApproveJoin ''s1'' ''r1'' ''s2'' True) ''s2'' ''r1''
          \<and> peerOf (step (EApproveJoin ''s1'' ''r1'' ''s2'' True) ?w) ''r1'' ''s2''
              = Some (ex_peer ''s2'' ''u2'' ''Bob'' Producer)"
    using p2 a by (simp add: ex_peer_def)
  have h1: "peerOf ?w ''r1'' ''s1'' = Some (ex_peer ''s1'' ''u1'' ''Ann'' Host)
          \<and> role (ex_peer ''s1'' ''u1'' ''Ann'' Host) = Host
          \<and> \<not> rejoins (EDemoteToConsumer ''s1'' ''r1'' ''s1'') ''s1'' ''r1''
          \<and> peerOf (step (EDemoteToConsumer ''s1'' ''r1'' ''s1'') ?w) ''r1'' ''s1''
              = Some (ex_peer ''s1'' ''u1'' ''Ann'' Host)"
    using p1 d by (simp add: ex_peer_def)
  note t4 = host_role_fixed [OF ex_reachable2, THEN conjunct2, THEN conjunct2, THEN conjunct2,
              THEN conjunct1, THEN spec, THEN spec, THEN spec, THEN spec, THEN spec, THEN mp,
              OF h2]
  note t5 = host_role_fixed [OF ex_reachable2, THEN conjunct2, THEN conjunct2, THEN conjunct2,
              THEN conjunct2, THEN conjunct1, THEN spec, THEN spec, THEN spec, THEN spec, THEN spec, THEN mp,
              OF h1]
  from ex_reachable2 p2 a t4 d t5 show ?thesis by blast
qed

section \<open>Disconnect\<close>

lemma disconnect_fold_session_kept_absent:
  "map_of (inviteManager w) rid = None \<Longrightarrow>
   map_of (inviteManager
     (fold (\<lambda>(roomId, room) w'. disconnect_room sid roomId room w') rs w)) rid = None"
proof (induction rs arbitrary: w)
  case Nil
  then show ?case by simp
next
  case (Cons a rs)
  obtain k r where a: "a = (k, r)" by (cases a)
  from Cons.prems have "map_of (inviteManager (disconnect_room sid k r w)) rid = None"
    by (simp add: disconnect_room_eq delete_conv' split: option.splits)
  from Cons.IH [OF this] a show ?case by simp
qed

lemma disconnect_fold_closed_kept:
  "h \<in> closed w \<Longrightarrow>
   h \<in> closed (fold (\<lambda>(roomId, room) w'. disconnect_room sid roomId room w') rs w)"
proof (induction rs arbitrary: w)
  case Nil
  then show ?case by simp
next
  case (Cons a rs)
  obtain k r where a: "a = (k, r)" by (cases a)
  from Cons.prems have "h \<in> closed (disconnect_room sid k r w)"
    by (simp add: disconnect_room_eq split: option.splits)
  from Cons.IH [OF this] a show ?case by simp
qed

lemma disconnect_fold_last_peer:
  assumes "(rid, room) \<in> set rs" and "getPeer sid room = Some peer"
    and "AList.delete sid (peers room) = []"
  shows "map_of (inviteManager
           (fold (\<lambda>(roomId, room) w'. disconnect_room sid roomId room w') rs w)) rid = None
       \<and> HRouter (routerId (router room))
           \<in> closed (fold (\<lambda>(roomId, room) w'. disconnect_room sid roomId room w') rs w)"
  using assms(1)
proof (induction rs arbitrary: w)
  case Nil
  then show ?case by simp
next
  case (Cons a rs)
  obtain k r where a: "a = (k, r)" by (cases a)
  show ?case
  proof (cases "a = (rid, room)")
    case True
    with assms(2,3) have
      "map_of (inviteManager (disconnect_room sid rid room w)) rid = None"
      "HRouter (routerId (router room)) \<in> closed (disconnect_room sid rid room w)"
      by (simp_all add: disconnect_room_eq delete_conv')
    with True show ?thesis
      by (simp add: disconnect_fold_session_kept_absent disconnect_fold_closed_kept)
  next
    case False
    with Cons.prems have "(rid, room) \<in> set rs" by simp
    from Cons.IH [OF this] a show ?thesis by simp
  qed
qed

lemma only_peer:
  assumes "map fst (peers room) = [sid]"
  shows "\<exists>peer. getPeer sid room = Some peer" and "AList.delete sid (peers room) = []"
proof -
  from assms obtain p where "peers room = [(sid, p)]"
    by (cases "peers room") auto
  then show "\<exists>peer. getPeer sid room = Some peer" and "AList.delete sid (peers room) = []"
    by (simp_all add: getPeer_def)
qed


text \<open>
  C7: in every state the server can reach, after a disconnect no registered room is
  empty; and when the disconnecting connection is the only peer of a room, the room is
  no longer in the registry, its router has been closed and its invite session is
  removed.
\<close>

theorem disconnect_of_last_peer:
  assumes "reachable w"
  shows "(\<forall>rid room. map_of (rooms (disconnect sid w)) rid = Some room \<longrightarrow> \<not> isEmpty room)
       \<and> (\<forall>rid room. map_of (rooms w) rid = Some room \<and> map fst (peers room) = [sid]
            \<longrightarrow> map_of (rooms (disconnect sid w)) rid = None
              \<and> getRoomSession rid (inviteManager (disconnect sid w)) = None
              \<and> HRouter (routerId (router room)) \<in> closed (disconnect sid w))"
proof -
  from assms have wf: "wellFormed w" by (rule wellFormed_reachable)
  then have d: "distinct (map fst (rooms w))" by (simp add: wellFormed_def)
  from wf have "wellFormed (disconnect sid w)" by (rule wellFormed_disconnect)
  then have a: "\<forall>rid room. map_of (rooms (disconnect sid w)) rid = Some room \<longrightarrow> \<not> isEmpty room"
    by (auto simp: wellFormed_def roomOk_def isEmpty_def)
  have b: "map_of (rooms (disconnect sid w)) rid = None
         \<and> getRoomSession rid (inviteManager (disconnect sid w)) = None
         \<and> HRouter (routerId (router room)) \<in> closed (disconnect sid w)"
    if h: "map_of (rooms w) rid = Some room \<and> map fst (peers room) = [sid]" for rid room
  proof -
    from h have mf: "map fst (peers room) = [sid]" by simp
    from only_peer(1) [OF mf] obtain peer where p: "getPeer sid room = Some peer" by blast
    from only_peer(2) [OF mf] have e: "AList.delete sid (peers room) = []" .
    from h have m: "(rid, room) \<in> set (rooms w)" by (auto dest: map_of_SomeD)
    from h p e have "map_of (rooms (disconnect sid w)) rid = None"
      by (simp add: disconnect_lookup [OF d])
    with disconnect_fold_last_peer [OF m p e, of w] show ?thesis
      by (simp add: disconnect_def getRoomSession_def)
  qed
  from a b show ?thesis by blast
qed

theorem disconnect_of_last_peer_witness:
  "reachable (ex_world [ex_peer ''s1'' ''u1'' ''Ann'' Host])
   \<and> map_of (rooms (ex_world [ex_peer ''s1'' ''u1'' ''Ann'' Host])) ''r1''
       = Some (ex_room [ex_peer ''s1'' ''u1'' ''Ann'' Host])
   \<and> map fst (peers (ex_room [ex_peer ''s1'' ''u1'' ''Ann'' Host])) = [''s1'']
   \<and> map_of (rooms (disconnect ''s1'' (ex_world [ex_peer ''s1'' ''u1'' ''Ann'' Host]))) ''r1'' = None
   \<and> getRoomSession ''r1''
        (inviteManager (disconnect ''s1'' (ex_world [ex_peer ''s1'' ''u1'' ''Ann'' Host]))) = None
   \<and> HRouter (routerId (router (ex_room [ex_peer ''s1'' ''u1'' ''Ann'' Host])))
        \<in> closed (disconnect ''s1'' (ex_world [ex_peer ''s1'' ''u1'' ''Ann'' Host]))"
proof -
  have m: "map_of (rooms (ex_world [ex_peer ''s1'' ''u1'' ''Ann'' Host])) ''r1''
             = Some (ex_room [ex_peer ''s1'' ''u1'' ''Ann'' Host])
           \<and> map fst (peers (ex_room [ex_peer ''s1'' ''u1'' ''Ann'' Host])) = [''s1'']"
    by (simp add: ex_world_def ex_room_def ex_peer_def)
  note t = disconnect_of_last_peer [OF ex_reachable1, of "''s1''", THEN conjunct2,
             THEN spec, THEN spec, THEN mp, OF m]
  from ex_reachable1 m t show ?thesis by blast
qed

end
